theory Spec2Isabelle
  imports Main
begin

section \<open>Strings\<close>

text \<open>
  A Python \<open>str\<close> is modelled as a HOL \<open>string\<close>: a list of characters whose code points
  are below 256. The string methods the pipeline uses are written out on lists.
\<close>

definition py_lower_char :: "char \<Rightarrow> char" where
  \<comment> \<open>\<open>str.lower\<close> on one code point below 256: A-Z and the Latin-1 capitals.\<close>
  "py_lower_char c =
     (let n = (of_char c :: nat)
      in if (65 \<le> n \<and> n \<le> 90) \<or> (192 \<le> n \<and> n \<le> 222 \<and> n \<noteq> 215)
         then char_of (n + 32) else c)"

definition py_lower :: "string \<Rightarrow> string" where
  "py_lower s = map py_lower_char s"

definition py_isspace :: "char \<Rightarrow> bool" where
  \<comment> \<open>the code points below 256 that \<open>str.strip()\<close> removes\<close>
  "py_isspace c =
     (let n = (of_char c :: nat)
      in (9 \<le> n \<and> n \<le> 13) \<or> (28 \<le> n \<and> n \<le> 32) \<or> n = 133 \<or> n = 160)"

definition py_strip :: "string \<Rightarrow> string" where
  "py_strip s = rev (dropWhile py_isspace (rev (dropWhile py_isspace s)))"

fun startswith :: "string \<Rightarrow> string \<Rightarrow> bool" where
  \<comment> \<open>\<open>s.startswith(p)\<close>\<close>
  "startswith s [] = True"
| "startswith [] (p # ps) = False"
| "startswith (c # s) (p # ps) = (c = p \<and> startswith s ps)"

fun py_in :: "string \<Rightarrow> string \<Rightarrow> bool" where
  \<comment> \<open>\<open>p in s\<close> on strings: \<open>py_in p s\<close>\<close>
  "py_in p [] = (p = [])"
| "py_in p (c # s) = (startswith (c # s) p \<or> py_in p s)"

fun py_replace :: "string \<Rightarrow> string \<Rightarrow> string \<Rightarrow> string" where
  \<comment> \<open>\<open>s.replace(old, new)\<close> for a non-empty \<open>old\<close>: leftmost occurrences, not overlapping\<close>
  "py_replace old new [] = []"
| "py_replace old new (c # s) =
     (if old \<noteq> [] \<and> startswith (c # s) old
      then new @ py_replace old new (drop (length old - 1) s)
      else c # py_replace old new s)"

fun py_replace1 :: "string \<Rightarrow> string \<Rightarrow> string \<Rightarrow> string" where
  \<comment> \<open>\<open>s.replace(old, new, 1)\<close> for a non-empty \<open>old\<close>: the first occurrence only\<close>
  "py_replace1 old new [] = []"
| "py_replace1 old new (c # s) =
     (if old \<noteq> [] \<and> startswith (c # s) old
      then new @ drop (length old - 1) s
      else c # py_replace1 old new s)"

section \<open>Regular expressions\<close>

text \<open>
  The part of Python's \<open>re\<close> that the pattern compiler reaches: literals, escaped
  characters, the dot, the star, and the two anchors, all under \<open>re.IGNORECASE\<close>.
\<close>

definition re_special :: "char \<Rightarrow> bool" where
  \<comment> \<open>the characters \<open>re.escape\<close> puts a backslash before (Python 3.7 and later)\<close>
  "re_special c =
     (c \<in> set ''()[]{}?*+-|^$.&~# '' \<or> c = CHR 0x5C
      \<or> (of_char c :: nat) \<in> {9, 10, 11, 12, 13})"

fun re_escape :: "string \<Rightarrow> string" where
  "re_escape [] = []"
| "re_escape (c # s) = (if re_special c then CHR 0x5C # c # re_escape s else c # re_escape s)"

datatype re_atom = Lit char | AnyChar

datatype re_item = One re_atom | Star re_atom | Bol | Eol

definition re_alnum :: "char \<Rightarrow> bool" where
  "re_alnum c =
     (let n = (of_char c :: nat)
      in (48 \<le> n \<and> n \<le> 57) \<or> (65 \<le> n \<and> n \<le> 90) \<or> (97 \<le> n \<and> n \<le> 122))"

definition re_quantified :: "re_atom \<Rightarrow> string \<Rightarrow> (re_item \<times> string) option" where
  \<comment> \<open>an atom and what follows it: a star makes it a repetition; a second quantifier
      after the star is outside the modelled syntax\<close>
  "re_quantified a s =
     (case s of
        [] \<Rightarrow> Some (One a, [])
      | q # r \<Rightarrow>
          if q = CHR ''*''
          then (case r of
                  [] \<Rightarrow> Some (Star a, [])
                | q' # _ \<Rightarrow> if q' \<in> set ''*+?{'' then None else Some (Star a, r))
          else if q \<in> set ''+?{'' then None
          else Some (One a, s))"

definition re_next :: "string \<Rightarrow> (re_item \<times> string) option" where
  \<comment> \<open>the first item of a non-empty pattern text and the rest of the text; \<open>None\<close> is
      \<open>re.error\<close> or syntax outside the modelled part (groups, classes, alternation,
      backslash-letter escapes)\<close>
  "re_next s =
     (case s of
        [] \<Rightarrow> None
      | c # r \<Rightarrow>
          if c = CHR 0x5C
          then (case r of
                  [] \<Rightarrow> None
                | d # r' \<Rightarrow> if re_alnum d then None else re_quantified (Lit d) r')
          else if c = CHR ''.'' then re_quantified AnyChar r
          else if c = CHR ''^'' then Some (Bol, r)
          else if c = CHR ''$'' then Some (Eol, r)
          else if c \<in> set ''*+?{}()[]|'' then None
          else re_quantified (Lit c) r)"

lemma re_quantified_shorter: "re_quantified a s = Some (i, r) \<Longrightarrow> length r \<le> length s"
  by (auto simp: re_quantified_def split: list.splits if_splits)

lemma re_next_shorter: "re_next s = Some (i, r) \<Longrightarrow> length r < length s"
  by (auto simp: re_next_def split: list.splits if_splits dest!: re_quantified_shorter)

function re_compile :: "string \<Rightarrow> re_item list option" where
  \<comment> \<open>\<open>re.compile(text, re.IGNORECASE)\<close>\<close>
  "re_compile s =
     (if s = [] then Some []
      else (case re_next s of
              None \<Rightarrow> None
            | Some (i, r) \<Rightarrow> map_option ((#) i) (re_compile r)))"
  by pat_completeness auto
termination
  by (relation "measure length") (auto dest: re_next_shorter)

declare re_compile.simps [simp del]

definition atom_matches :: "re_atom \<Rightarrow> char \<Rightarrow> bool" where
  \<comment> \<open>under \<open>re.IGNORECASE\<close> a literal matches the characters with the same lower case;
      the dot matches everything but a newline\<close>
  "atom_matches a c =
     (case a of Lit p \<Rightarrow> py_lower_char c = py_lower_char p | AnyChar \<Rightarrow> c \<noteq> CHR 0x0A)"

fun re_match_here :: "re_item list \<Rightarrow> bool \<Rightarrow> string \<Rightarrow> bool" where
  \<comment> \<open>does the item list match a prefix of the text; the flag says that the text starts
      at position 0 of the subject\<close>
  "re_match_here [] b s = True"
| "re_match_here (Bol # r) b s = (b \<and> re_match_here r b s)"
| "re_match_here (Eol # r) b s = ((s = [] \<or> s = [CHR 0x0A]) \<and> re_match_here r b s)"
| "re_match_here (One a # r) b [] = False"
| "re_match_here (One a # r) b (c # s) = (atom_matches a c \<and> re_match_here r False s)"
| "re_match_here (Star a # r) b [] = re_match_here r b []"
| "re_match_here (Star a # r) b (c # s) =
     (re_match_here r b (c # s) \<or> (atom_matches a c \<and> re_match_here (Star a # r) False s))"

definition re_match :: "re_item list \<Rightarrow> string \<Rightarrow> bool" where
  \<comment> \<open>\<open>regex.match(s)\<close> as a truth value: a match starting at position 0\<close>
  "re_match r s = re_match_here r True s"

section \<open>The pattern compiler\<close>

text \<open>
  A page type is a dictionary read through \<open>get\<close> with a default, so both of its keys
  may be absent. The planner keeps the taxonomy twice (a flat list whose items carry
  their stage, and a dictionary from stage to page types, in insertion order) and the
  compiled matchers, \<open>None\<close> until they are compiled.
\<close>

record page_type =
  type_name :: "string option"
  typical_url_patterns :: "string list option"

type_synonym flat_type = "string option \<times> page_type"
  \<comment> \<open>an item of the flat list: its \<open>related_journey_stage\<close>, if any, and the other keys\<close>

record matcher =
  m_stage :: string
  m_type_name :: string
  m_regex :: "re_item list"
  m_len :: nat

record planner =
  core_page_types :: "flat_type list"
  core_page_types_nested :: "(string \<times> page_type list) list"
  compiled_patterns :: "matcher list option"

fun setdefault_append :: "(string \<times> 'a list) list \<Rightarrow> string \<Rightarrow> 'a \<Rightarrow> (string \<times> 'a list) list" where
  \<comment> \<open>\<open>d.setdefault(k, []).append(v)\<close> on a dictionary kept in insertion order\<close>
  "setdefault_append [] k v = [(k, [v])]"
| "setdefault_append ((k', vs) # d) k v =
     (if k' = k then (k', vs @ [v]) # d else (k', vs) # setdefault_append d k v)"

fun nest_flat :: "(string \<times> page_type list) list \<Rightarrow> flat_type list \<Rightarrow> (string \<times> page_type list) list" where
  \<comment> \<open>the loop that rebuilds the nested dictionary from the flat list\<close>
  "nest_flat nested [] = nested"
| "nest_flat nested ((st, item) # items) =
     nest_flat (setdefault_append nested (case st of None \<Rightarrow> ''Unknown Stage'' | Some s \<Rightarrow> s) item) items"

definition pattern_regex :: "string \<Rightarrow> string" where
  \<comment> \<open>the regex text of one raw pattern. The text searched for by \<open>replace\<close> is the raw
      string literal \<open>r"\\*"\<close>: two backslashes and a star.\<close>
  "pattern_regex raw_pat =
     (if py_strip raw_pat = ''/'' then ''^/$''
      else py_replace [CHR 0x5C, CHR 0x5C, CHR ''*''] ''.*'' (re_escape raw_pat))"

fun compile_patterns :: "string \<Rightarrow> string \<Rightarrow> string list \<Rightarrow> matcher list" where
  \<comment> \<open>the innermost loop: a pattern whose regex does not compile is skipped\<close>
  "compile_patterns stage tname [] = []"
| "compile_patterns stage tname (raw_pat # pats) =
     (case re_compile (pattern_regex raw_pat) of
        None \<Rightarrow> compile_patterns stage tname pats
      | Some regex \<Rightarrow>
          \<lparr>m_stage = stage, m_type_name = tname, m_regex = regex, m_len = length raw_pat\<rparr>
            # compile_patterns stage tname pats)"

fun compile_types :: "string \<Rightarrow> page_type list \<Rightarrow> matcher list" where
  "compile_types stage [] = []"
| "compile_types stage (type_obj # type_list) =
     compile_patterns stage
        (case type_name type_obj of None \<Rightarrow> ''Unknown'' | Some n \<Rightarrow> n)
        (case typical_url_patterns type_obj of None \<Rightarrow> [] | Some ps \<Rightarrow> ps)
     @ compile_types stage type_list"

fun compile_stages :: "(string \<times> page_type list) list \<Rightarrow> matcher list" where
  \<comment> \<open>the matchers in taxonomy encounter order, before sorting\<close>
  "compile_stages [] = []"
| "compile_stages ((stage, type_list) # nested) = compile_types stage type_list @ compile_stages nested"

definition sort_matchers :: "matcher list \<Rightarrow> matcher list" where
  \<comment> \<open>\<open>compiled.sort(key=lambda x: -x[3])\<close>: Python's sort is stable\<close>
  "sort_matchers compiled = sort_key (\<lambda>x. - int (m_len x)) compiled"

definition compile_core_type_patterns :: "planner \<Rightarrow> planner" where
  "compile_core_type_patterns self =
     (if compiled_patterns self \<noteq> None \<and> compiled_patterns self \<noteq> Some [] then self
      else
        let self1 = (if core_page_types_nested self \<noteq> [] then self
                     else self\<lparr>core_page_types_nested := nest_flat [] (core_page_types self)\<rparr>)
        in self1\<lparr>compiled_patterns :=
                   Some (sort_matchers (compile_stages (core_page_types_nested self1)))\<rparr>)"

section \<open>URL parsing\<close>

text \<open>
  \<open>urllib.parse.urlparse\<close>, as the classifier and the host extraction use it. It raises
  \<open>ValueError\<close> on a network location with unbalanced brackets, and on a bracketed host
  that the \<open>ipaddress\<close> library rejects; that library's verdict is the parameter
  \<open>bracketed_host_ok\<close>. On code points below 256 its normalisation check never fires.
\<close>

datatype error =
  ValueError | TypeError | KeyError | AttributeError | RuntimeError | CollaboratorError string

record parse_result =
  scheme :: string
  netloc :: string
  path :: string
  params :: string
  query :: string
  fragment :: string

definition split_first :: "char \<Rightarrow> string \<Rightarrow> (string \<times> string) option" where
  \<comment> \<open>\<open>s.split(d, 1)\<close> when \<open>d in s\<close>: the text before and after the first \<open>d\<close>\<close>
  "split_first d s =
     (if d \<in> set s then Some (takeWhile (\<lambda>c. c \<noteq> d) s, tl (dropWhile (\<lambda>c. c \<noteq> d) s))
      else None)"

definition scheme_char :: "char \<Rightarrow> bool" where
  "scheme_char c = (re_alnum c \<or> c \<in> set ''+-.'')"

definition ascii_alpha :: "char \<Rightarrow> bool" where
  "ascii_alpha c =
     (let n = (of_char c :: nat) in (65 \<le> n \<and> n \<le> 90) \<or> (97 \<le> n \<and> n \<le> 122))"

definition uses_params :: "string list" where
  "uses_params = [[], ''ftp'', ''hdl'', ''prospero'', ''http'', ''imap'', ''https'', ''shttp'',
     ''rtsp'', ''rtsps'', ''rtspu'', ''sip'', ''sips'', ''mms'', ''sftp'', ''tel'']"

definition split_scheme :: "string \<Rightarrow> string \<times> string" where
  \<comment> \<open>the scheme, lower-cased, and the rest; no scheme unless the text before the first
      colon is non-empty, starts with an ASCII letter and has scheme characters only\<close>
  "split_scheme u =
     (case split_first (CHR '':'') u of
        None \<Rightarrow> ([], u)
      | Some (pre, post) \<Rightarrow>
          if pre \<noteq> [] \<and> ascii_alpha (hd pre) \<and> list_all scheme_char pre
          then (py_lower pre, post) else ([], u))"

definition splitparams :: "string \<Rightarrow> string \<times> string" where
  \<comment> \<open>\<open>_splitparams\<close>, called when \<open>';' in url\<close>: the parameters are cut from the last
      path segment only\<close>
  "splitparams u =
     (if CHR ''/'' \<in> set u
      then (let seg = rev (takeWhile (\<lambda>c. c \<noteq> CHR ''/'') (rev u));
                head = take (length u - length seg) u
            in case split_first (CHR '';'') seg of
                 None \<Rightarrow> (u, [])
               | Some (a, b) \<Rightarrow> (head @ a, b))
      else (case split_first (CHR '';'') u of None \<Rightarrow> (u, []) | Some (a, b) \<Rightarrow> (a, b)))"

definition bracketed_host :: "string \<Rightarrow> string" where
  \<comment> \<open>\<open>netloc.partition('[')[2].partition(']')[0]\<close>\<close>
  "bracketed_host nl =
     takeWhile (\<lambda>c. c \<noteq> CHR '']'') (tl (dropWhile (\<lambda>c. c \<noteq> CHR ''['') nl))"

definition urlparse :: "(string \<Rightarrow> bool) \<Rightarrow> string \<Rightarrow> error + parse_result" where
  "urlparse bracketed_host_ok url0 =
     (let url1 = dropWhile (\<lambda>c. (of_char c :: nat) \<le> 32) url0;
          url2 = filter (\<lambda>c. (of_char c :: nat) \<notin> {9, 10, 13}) url1;
          (sch, url3) = split_scheme url2;
          (nl, url4) = (if take 2 url3 = ''//''
                        then (takeWhile (\<lambda>c. c \<notin> set ''/?#'') (drop 2 url3),
                              dropWhile (\<lambda>c. c \<notin> set ''/?#'') (drop 2 url3))
                        else ([], url3))
      in if (CHR ''['' \<in> set nl \<and> CHR '']'' \<notin> set nl) \<or> (CHR '']'' \<in> set nl \<and> CHR ''['' \<notin> set nl)
         then Inl ValueError
         else if CHR ''['' \<in> set nl \<and> CHR '']'' \<in> set nl \<and> \<not> bracketed_host_ok (bracketed_host nl)
         then Inl ValueError
         else
           let (url5, frag) = (case split_first (CHR ''#'') url4 of None \<Rightarrow> (url4, []) | Some ab \<Rightarrow> ab);
               (url6, qry) = (case split_first (CHR ''?'') url5 of None \<Rightarrow> (url5, []) | Some ab \<Rightarrow> ab);
               (pth, prm) = (if sch \<in> set uses_params \<and> CHR '';'' \<in> set url6
                             then splitparams url6 else (url6, []))
           in Inr \<lparr>scheme = sch, netloc = nl, path = pth, params = prm, query = qry, fragment = frag\<rparr>)"

section \<open>The classifier\<close>

definition is_digit :: "char \<Rightarrow> bool" where
  \<comment> \<open>\<open>\d\<close> on code points below 256\<close>
  "is_digit c = (let n = (of_char c :: nat) in 48 \<le> n \<and> n \<le> 57)"

definition after_web_digits :: "string \<Rightarrow> string option" where
  \<comment> \<open>if the text starts with \<open>/web/\<close>, one or more digits and a slash: what follows\<close>
  "after_web_digits s =
     (if startswith s ''/web/''
      then (let r = drop 5 s; r2 = dropWhile is_digit r
            in if takeWhile is_digit r \<noteq> [] \<and> startswith r2 ''/'' then Some (tl r2) else None)
      else None)"

definition has_http_scheme :: "string \<Rightarrow> bool" where
  \<comment> \<open>\<open>https?://\<close> at the start\<close>
  "has_http_scheme s = (startswith s ''http://'' \<or> startswith s ''https://'')"

fun wayback_underlying :: "string \<Rightarrow> string option" where
  \<comment> \<open>group 1 of \<open>re.search(r"/web/\d+/(https?://.*)", url)\<close>: the leftmost match; the
      dot does not match a newline\<close>
  "wayback_underlying [] = None"
| "wayback_underlying (c # s) =
     (case after_web_digits (c # s) of
        Some u \<Rightarrow> if has_http_scheme u then Some (takeWhile (\<lambda>c. c \<noteq> CHR 0x0A) u)
                  else wayback_underlying s
      | None \<Rightarrow> wayback_underlying s)"

definition http_origin :: "string \<Rightarrow> string option" where
  \<comment> \<open>\<open>https?://[^/]+\<close> at the start: the scheme and at least one character other
      than a slash\<close>
  "http_origin u =
     (let k = (if startswith u ''http://'' then 7 else 8);
          h = takeWhile (\<lambda>c. c \<noteq> CHR ''/'') (drop k u)
      in if has_http_scheme u \<and> h \<noteq> [] then Some (take k u @ h) else None)"

fun wayback_origin :: "string \<Rightarrow> string option" where
  \<comment> \<open>group 1 of \<open>re.search(r"/web/\d+/(https?://[^/]+)", url)\<close>\<close>
  "wayback_origin [] = None"
| "wayback_origin (c # s) =
     (case after_web_digits (c # s) of
        Some u \<Rightarrow> (case http_origin u of Some g \<Rightarrow> Some g | None \<Rightarrow> wayback_origin s)
      | None \<Rightarrow> wayback_origin s)"

definition repair_scheme :: "string \<Rightarrow> string" where
  \<comment> \<open>the two repairs of a single-slash scheme separator, in the source's order\<close>
  "repair_scheme underlying =
     (let u1 = (if startswith underlying ''http:/'' \<and> \<not> startswith underlying ''http://''
                then py_replace1 ''http:/'' ''http://'' underlying else underlying)
      in if startswith u1 ''https:/'' \<and> \<not> startswith u1 ''https://''
         then py_replace1 ''https:/'' ''https://'' u1 else u1)"

definition strip_port_www :: "string \<Rightarrow> string" where
  \<comment> \<open>\<open>host.split(":")[0]\<close> when there is a colon, then a leading \<open>www.\<close> removed\<close>
  "strip_port_www host =
     (let h = (if CHR '':'' \<in> set host then takeWhile (\<lambda>c. c \<noteq> CHR '':'') host else host)
      in if startswith h ''www.'' then drop 4 h else h)"

definition path_and_query :: "parse_result \<Rightarrow> string" where
  "path_and_query p =
     (let real_part = (if path p = [] then ''/'' else path p)
      in if query p \<noteq> [] then real_part @ ''?'' @ query p else real_part)"

definition get_home_host :: "(string \<Rightarrow> bool) \<Rightarrow> string \<Rightarrow> error + string" where
  \<comment> \<open>\<open>_get_home_host\<close>; \<open>_extract_home_host\<close> of the URL processor has the same body\<close>
  "get_home_host ok homepage_url =
     (case urlparse ok homepage_url of
        Inl e \<Rightarrow> Inl e
      | Inr parsed \<Rightarrow>
          let host = py_lower (netloc parsed)
          in if py_in ''web.archive.org'' host
             then (case wayback_origin homepage_url of
                     None \<Rightarrow> Inr (strip_port_www host)
                   | Some underlying \<Rightarrow>
                       (case urlparse ok (repair_scheme underlying) of
                          Inl e \<Rightarrow> Inl e
                        | Inr p \<Rightarrow> Inr (strip_port_www (py_lower (netloc p)))))
             else Inr (strip_port_www host))"

definition link_location :: "(string \<Rightarrow> bool) \<Rightarrow> string \<Rightarrow> error + (string \<times> string)" where
  \<comment> \<open>the first half of the classifier's loop body: \<open>candidate_host\<close> and \<open>real_part\<close>.
      Only the archive branch strips the port and \<open>www.\<close>; an archive URL with no
      embedded \<open>http://\<close> or \<open>https://\<close> URL keeps the whole URL as its path.\<close>
  "link_location ok u =
     (if py_in ''web.archive.org'' u
      then (case wayback_underlying u of
              None \<Rightarrow> Inr ([], u)
            | Some underlying \<Rightarrow>
                (case urlparse ok (repair_scheme underlying) of
                   Inl e \<Rightarrow> Inl e
                 | Inr parsed_under \<Rightarrow>
                     Inr (strip_port_www (py_lower (netloc parsed_under)), path_and_query parsed_under)))
      else (case urlparse ok u of
              Inl e \<Rightarrow> Inl e
            | Inr parsed \<Rightarrow> Inr (py_lower (netloc parsed), path_and_query parsed)))"

record classified_url =
  url :: string
  customer_journey_stage :: string
  entry_type_name :: string

fun first_match :: "matcher list \<Rightarrow> string \<Rightarrow> matcher option" where
  \<comment> \<open>the inner loop: it breaks at the first matcher whose regex matches\<close>
  "first_match [] real_part = None"
| "first_match (m # ms) real_part =
     (if re_match (m_regex m) real_part then Some m else first_match ms real_part)"

definition cross_domain :: "string \<Rightarrow> string \<Rightarrow> bool" where
  \<comment> \<open>the condition of the domain filter's \<open>continue\<close>\<close>
  "cross_domain home_host candidate_host =
     (home_host \<noteq> [] \<and> candidate_host \<noteq> [] \<and> candidate_host \<noteq> home_host
      \<and> candidate_host \<noteq> ''www.'' @ home_host)"

fun classify_links ::
  "(string \<Rightarrow> bool) \<Rightarrow> matcher list option \<Rightarrow> string \<Rightarrow> string list \<Rightarrow> classified_url list
     \<Rightarrow> error + classified_url list" where
  \<comment> \<open>the loop over \<open>valid_links\<close>, appending to \<open>results\<close>; iterating over patterns that
      were never compiled (\<open>None\<close>) raises \<open>TypeError\<close>\<close>
  "classify_links ok pats home_host [] results = Inr results"
| "classify_links ok pats home_host (u # links) results =
     (case link_location ok u of
        Inl e \<Rightarrow> Inl e
      | Inr (candidate_host, real_part) \<Rightarrow>
          if cross_domain home_host candidate_host
          then classify_links ok pats home_host links results
          else (case pats of
                  None \<Rightarrow> Inl TypeError
                | Some ms \<Rightarrow>
                    (case first_match ms real_part of
                       None \<Rightarrow> classify_links ok pats home_host links results
                     | Some m \<Rightarrow>
                         classify_links ok pats home_host links
                           (results @ [\<lparr>url = u, customer_journey_stage = m_stage m,
                                        entry_type_name = m_type_name m\<rparr>]))))"

definition classify_candidate_urls ::
  "(string \<Rightarrow> bool) \<Rightarrow> planner \<Rightarrow> string \<Rightarrow> string list \<Rightarrow> string
     \<Rightarrow> (error + classified_url list) \<times> planner" where
  \<comment> \<open>\<open>_classify_candidate_urls(year, valid_links, homepage_url)\<close>: the result and the
      planner afterwards\<close>
  "classify_candidate_urls ok self year valid_links homepage_url =
     (case (if homepage_url \<noteq> [] then get_home_host ok homepage_url else Inr []) of
        Inl e \<Rightarrow> (Inl e, self)
      | Inr home_host \<Rightarrow>
          (classify_links ok (compiled_patterns self) home_host valid_links [], self))"

section \<open>The selection postprocessor\<close>

text \<open>
  What the selection service returns is parsed JSON, so the postprocessor can meet any
  JSON value where it expects a dictionary, a list or a string. JSON numbers are modelled
  as integers. A dictionary is an association list in insertion order, each key once.
\<close>

datatype json =
  JNull | JBool bool | JInt int | JStr string | JList "json list" | JObj "(string \<times> json) list"

definition py_truthy :: "json \<Rightarrow> bool" where
  "py_truthy v =
     (case v of JNull \<Rightarrow> False | JBool b \<Rightarrow> b | JInt i \<Rightarrow> i \<noteq> 0 | JStr s \<Rightarrow> s \<noteq> []
      | JList xs \<Rightarrow> xs \<noteq> [] | JObj d \<Rightarrow> d \<noteq> [])"

definition dict_get :: "(string \<times> json) list \<Rightarrow> string \<Rightarrow> json \<Rightarrow> json" where
  \<comment> \<open>\<open>d.get(k, default)\<close>\<close>
  "dict_get d k dflt = (case map_of d k of None \<Rightarrow> dflt | Some v \<Rightarrow> v)"

fun dict_set :: "(string \<times> 'v) list \<Rightarrow> string \<Rightarrow> 'v \<Rightarrow> (string \<times> 'v) list" where
  \<comment> \<open>\<open>d[k] = v\<close>: an existing key keeps its place, a new key goes last\<close>
  "dict_set [] k v = [(k, v)]"
| "dict_set ((k', v') # d) k v = (if k' = k then (k, v) # d else (k', v') # dict_set d k v)"

definition py_contains :: "json \<Rightarrow> string \<Rightarrow> error + bool" where
  \<comment> \<open>\<open>k in v\<close> for a string \<open>k\<close>: a key of a dictionary, an element of a list, a
      substring of a string; anything else is not iterable\<close>
  "py_contains v k =
     (case v of
        JObj d \<Rightarrow> Inr (k \<in> set (map fst d))
      | JList xs \<Rightarrow> Inr (JStr k \<in> set xs)
      | JStr s \<Rightarrow> Inr (py_in k s)
      | _ \<Rightarrow> Inl TypeError)"

definition py_getitem :: "json \<Rightarrow> string \<Rightarrow> error + json" where
  \<comment> \<open>\<open>v[k]\<close> for a string \<open>k\<close>\<close>
  "py_getitem v k =
     (case v of
        JObj d \<Rightarrow> (case map_of d k of None \<Rightarrow> Inl KeyError | Some x \<Rightarrow> Inr x)
      | _ \<Rightarrow> Inl TypeError)"

definition py_iter :: "json \<Rightarrow> error + json list" where
  \<comment> \<open>the values a \<open>for\<close> loop over \<open>v\<close> visits\<close>
  "py_iter v =
     (case v of
        JList xs \<Rightarrow> Inr xs
      | JStr s \<Rightarrow> Inr (map (\<lambda>c. JStr [c]) s)
      | JObj d \<Rightarrow> Inr (map (\<lambda>kv. JStr (fst kv)) d)
      | _ \<Rightarrow> Inl TypeError)"

definition py_len :: "json \<Rightarrow> error + nat" where
  \<comment> \<open>\<open>len(v)\<close>: a number, a truth value and \<open>None\<close> have no length\<close>
  "py_len v =
     (case v of JList xs \<Rightarrow> Inr (length xs) | JStr s \<Rightarrow> Inr (length s) | JObj d \<Rightarrow> Inr (length d)
      | _ \<Rightarrow> Inl TypeError)"

definition in_valid :: "json \<Rightarrow> string list \<Rightarrow> bool" where
  \<comment> \<open>\<open>u in valid_content_urls\<close>: only a string equals a string\<close>
  "in_valid u valid_content_urls = (case u of JStr s \<Rightarrow> s \<in> set valid_content_urls | _ \<Rightarrow> False)"

fun collect_recommended :: "bool \<Rightarrow> string list \<Rightarrow> json list \<Rightarrow> json list \<Rightarrow> error + json list" where
  \<comment> \<open>the loop over \<open>recommended_url_list\<close>, appending to \<open>recommended_urls\<close>; a
      dictionary without the key \<open>url\<close> raises \<open>KeyError\<close>\<close>
  "collect_recommended enforce valid [] recommended_urls = Inr recommended_urls"
| "collect_recommended enforce valid (url_info # infos) recommended_urls =
     (case (case url_info of JObj d \<Rightarrow> py_getitem url_info ''url'' | _ \<Rightarrow> Inr url_info) of
        Inl e \<Rightarrow> Inl e
      | Inr url_str \<Rightarrow>
          if enforce
          then (if in_valid url_str valid
                then collect_recommended enforce valid infos (recommended_urls @ [url_str])
                else collect_recommended enforce valid infos recommended_urls)
          else collect_recommended enforce valid infos (recommended_urls @ [url_str]))"

definition py_num :: "json \<Rightarrow> int option" where
  \<comment> \<open>Python compares \<open>True\<close> with \<open>1\<close> and \<open>False\<close> with \<open>0\<close> as equal\<close>
  "py_num v = (case v of JBool b \<Rightarrow> Some (if b then 1 else 0) | JInt i \<Rightarrow> Some i | _ \<Rightarrow> None)"

definition py_eq :: "json \<Rightarrow> json \<Rightarrow> bool" where
  "py_eq a b = (case (py_num a, py_num b) of (Some x, Some y) \<Rightarrow> x = y | _ \<Rightarrow> a = b)"

definition hashable :: "json \<Rightarrow> bool" where
  "hashable v = (case v of JList _ \<Rightarrow> False | JObj _ \<Rightarrow> False | _ \<Rightarrow> True)"

fun dict_fromkeys :: "json list \<Rightarrow> json list \<Rightarrow> error + json list" where
  \<comment> \<open>\<open>list(dict.fromkeys(xs))\<close>: the first of equal keys is kept, in first-seen order;
      a list or a dictionary as a key raises \<open>TypeError\<close>\<close>
  "dict_fromkeys seen [] = Inr seen"
| "dict_fromkeys seen (x # xs) =
     (if \<not> hashable x then Inl TypeError
      else if list_ex (py_eq x) seen then dict_fromkeys seen xs
      else dict_fromkeys (seen @ [x]) xs)"

definition recommended_url_list :: "json \<Rightarrow> error + json list" where
  \<comment> \<open>the items the loop visits: none unless \<open>core_url_data\<close> is true and holds the key\<close>
  "recommended_url_list core_url_data =
     (if \<not> py_truthy core_url_data then Inr []
      else (case py_contains core_url_data ''recommended_url_list'' of
              Inl e \<Rightarrow> Inl e
            | Inr False \<Rightarrow> Inr []
            | Inr True \<Rightarrow>
                (case py_getitem core_url_data ''recommended_url_list'' of
                   Inl e \<Rightarrow> Inl e
                 | Inr v \<Rightarrow> py_iter v)))"

definition candidate_urls :: "json \<Rightarrow> string list \<Rightarrow> bool \<Rightarrow> error + json list" where
  \<comment> \<open>\<open>recommended_urls\<close> after the loop and the deduplication, before the fallback\<close>
  "candidate_urls llm_analysis valid_content_urls enforce =
     (case llm_analysis of
        JObj d \<Rightarrow>
          (case recommended_url_list (dict_get d ''core_url_recommendations'' (JObj [])) of
             Inl e \<Rightarrow> Inl e
           | Inr infos \<Rightarrow>
               (case collect_recommended enforce valid_content_urls infos [] of
                  Inl e \<Rightarrow> Inl e
                | Inr recommended_urls \<Rightarrow> dict_fromkeys [] recommended_urls))
      | _ \<Rightarrow> Inl AttributeError)"

definition medium_model :: string where
  "medium_model = ''openai/gpt-4o-mini''"

definition optimize_crawl_strategy ::
  "json \<Rightarrow> string list \<Rightarrow> string \<Rightarrow> bool option \<Rightarrow> string \<Rightarrow> error + (string \<times> json) list" where
  \<comment> \<open>\<open>_optimize_crawl_strategy\<close>; the last argument is what \<open>datetime.now()\<close> prints\<close>
  "optimize_crawl_strategy llm_analysis valid_content_urls year enforce_in_valid now =
     (let enforce = (case enforce_in_valid of None \<Rightarrow> True | Some b \<Rightarrow> b)
      in case candidate_urls llm_analysis valid_content_urls enforce of
           Inl e \<Rightarrow> Inl e
         | Inr deduplicated \<Rightarrow>
             let overlap_count = length (filter (\<lambda>u. in_valid u valid_content_urls) deduplicated);
                 recommended_urls = (if deduplicated = [] then map JStr (take 10 valid_content_urls)
                                     else deduplicated)
             in Inr
               [(''analysis_time'', JStr now),
                (''using_real_llm'', JBool True),
                (''llm_model'', JStr medium_model),
                (''year'', JStr year),
                (''discovered_links_count'', JInt (int (length valid_content_urls))),
                (''valid_content_urls_count'', JInt (int (length valid_content_urls))),
                (''recommended_crawl_pages'', JList recommended_urls),
                (''recommended_pages_count'', JInt (int (length recommended_urls))),
                (''recommended_in_valid_overlap'', JInt (int overlap_count)),
                (''enforce_recommended_in_valid_list'', JBool enforce),
                (''core_url_details'',
                   (case llm_analysis of JObj d \<Rightarrow> dict_get d ''core_url_recommendations'' (JObj [])
                    | _ \<Rightarrow> JNull))])"

section \<open>The planning stage\<close>

text \<open>
  The stage reads and writes one JSON document per company. The world holds the
  documents, the collaborator calls made so far, and a counter of clock readings and
  disk writes. The environment answers for what the stage does not decide: the
  selection service, the clock and the disk. A write that fails when the file is opened
  leaves the old document; one that fails later leaves a file that no longer parses.
  The output directory is taken to exist (\<open>os.makedirs\<close> with \<open>exist_ok\<close>), and a
  stored document that parses has the shape this program writes: the links document
  maps a year to a list of strings, the planning and the scenario document map a year
  to a dictionary, whose values are any JSON.
\<close>

datatype 'a stored = Absent | Unreadable | Content 'a

datatype io_outcome = Io_ok | Io_open_fails | Io_write_fails

datatype call =
  Discover_call string | Taxonomy_call | Classify_call string | Select_call string | Tag_call string

record planning_doc =
  agent_version :: string
  company_url :: string
  export_time :: string
  yearly_analysis_results :: "(string \<times> (string \<times> json) list) list"

record scenario_doc =
  analysis_version :: string
  sd_company_url :: string
  generation_time :: string
  analyzed_years_count :: nat
  total_identified_scenarios :: int
  yearly_detailed_results :: "(string \<times> (string \<times> json) list) list"

record links_doc =
  ld_generation_time :: string
  ld_company_url :: string
  total_years :: nat
  ld_year_links_map :: "(string \<times> string list) list"

record core_types_doc =
  ct_generation_time :: string
  ct_company_url :: string
  ct_core_page_types :: "(string \<times> page_type list) list"
  total_types :: nat

record world =
  links_file :: "links_doc stored"
  core_types_file :: "core_types_doc stored"
  planning_file :: "planning_doc stored"
  scenarios_file :: "scenario_doc stored"
  tick :: nat
  calls :: "call list"

record env =
  bracketed_host_ok :: "string \<Rightarrow> bool"
  generate_taxonomy :: "string list \<Rightarrow> error + (flat_type list \<times> (string \<times> page_type list) list)"
  select_core_urls :: "string \<Rightarrow> classified_url list \<Rightarrow> int \<Rightarrow> error + json"
  analyze_scenarios_for_year :: "string \<Rightarrow> json \<Rightarrow> error + (string list \<times> nat)"
  clock :: "nat \<Rightarrow> string"
  disk :: "nat \<Rightarrow> io_outcome"
  str_of_exception :: "error \<Rightarrow> string"

definition load_core_page_types :: "planner \<Rightarrow> core_types_doc stored \<Rightarrow> planner" where
  \<comment> \<open>\<open>_load_core_page_types\<close>: a file that cannot be read leaves the planner as it was\<close>
  "load_core_page_types self f =
     (case f of
        Content data \<Rightarrow>
          (let nested = ct_core_page_types data
           in self\<lparr>core_page_types :=
                      concat (map (\<lambda>(stage, items). map (\<lambda>it. (Some stage, it)) items) nested),
                    core_page_types_nested := nested\<rparr>)
      | _ \<Rightarrow> self)"

definition write_planning_file ::
  "env \<Rightarrow> string \<Rightarrow> (string \<times> (string \<times> json) list) list \<Rightarrow> world \<Rightarrow> world" where
  \<comment> \<open>\<open>_write_planning_file\<close>: a failure is logged, not raised\<close>
  "write_planning_file E company yearly_analysis w =
     (let result_data = \<lparr>agent_version = ''LLM_Planner_v1.0'', company_url = company,
                          export_time = clock E (tick w),
                          yearly_analysis_results = yearly_analysis\<rparr>;
          w' = w\<lparr>tick := Suc (tick w)\<rparr>
      in case disk E (tick w) of
           Io_ok \<Rightarrow> w'\<lparr>planning_file := Content result_data\<rparr>
         | Io_open_fails \<Rightarrow> w'
         | Io_write_fails \<Rightarrow> w'\<lparr>planning_file := Unreadable\<rparr>)"

definition classified_json :: "classified_url \<Rightarrow> json" where
  "classified_json c =
     JObj [(''url'', JStr (url c)), (''customer_journey_stage'', JStr (customer_journey_stage c)),
           (''type_name'', JStr (entry_type_name c))]"

definition plan_year ::
  "env \<Rightarrow> planner \<Rightarrow> int \<Rightarrow> string \<Rightarrow> string list \<Rightarrow> world \<Rightarrow> (error + (string \<times> json) list) \<times> world" where
  \<comment> \<open>the body of the \<open>try\<close> for one year, up to the assignment to \<open>yearly_analysis\<close>;
      the classifier is called without a home URL\<close>
  "plan_year E self crawl_num year valid_links w =
     (let w1 = w\<lparr>calls := calls w @ [Classify_call year]\<rparr>
      in case fst (classify_candidate_urls (bracketed_host_ok E) self year valid_links []) of
           Inl e \<Rightarrow> (Inl e, w1)
         | Inr classified_urls \<Rightarrow>
             let w2 = w1\<lparr>calls := calls w1 @ [Select_call year]\<rparr>
             in case select_core_urls E year classified_urls crawl_num of
                  Inl e \<Rightarrow> (Inl e, w2)
                | Inr llm_analysis \<Rightarrow>
                    (case optimize_crawl_strategy llm_analysis valid_links year (Some False)
                            (clock E (tick w2)) of
                       Inl e \<Rightarrow> (Inl e, w2)
                     | Inr final_analysis \<Rightarrow>
                         (Inr (dict_set
                                 (dict_set final_analysis ''classified_urls_count''
                                    (JInt (int (length classified_urls))))
                                 ''classified_urls'' (JList (map classified_json classified_urls))),
                          w2\<lparr>tick := Suc (tick w2)\<rparr>)))"

fun plan_years ::
  "env \<Rightarrow> planner \<Rightarrow> string \<Rightarrow> int \<Rightarrow> (string \<times> string list) list
     \<Rightarrow> (string \<times> (string \<times> json) list) list \<Rightarrow> world
     \<Rightarrow> (string \<times> (string \<times> json) list) list \<times> world" where
  \<comment> \<open>the loop over the years: a year already in \<open>yearly_analysis\<close> is skipped; a year
      that raises is logged and leaves \<open>yearly_analysis\<close> and the file alone\<close>
  "plan_years E self company crawl_num [] yearly_analysis w = (yearly_analysis, w)"
| "plan_years E self company crawl_num ((year, valid_links) # rest) yearly_analysis w =
     (if year \<in> set (map fst yearly_analysis)
      then plan_years E self company crawl_num rest yearly_analysis w
      else (case plan_year E self crawl_num year valid_links w of
              (Inl e, w1) \<Rightarrow> plan_years E self company crawl_num rest yearly_analysis w1
            | (Inr final_analysis, w1) \<Rightarrow>
                let yearly_analysis1 = dict_set yearly_analysis year final_analysis
                in plan_years E self company crawl_num rest yearly_analysis1
                     (write_planning_file E company yearly_analysis1 w1)))"

fun total_recommended :: "(string \<times> (string \<times> json) list) list \<Rightarrow> error + nat" where
  \<comment> \<open>\<open>sum(len(data.get("recommended_crawl_pages", [])) for data in ...)\<close>: a stored
      value that has no length raises \<open>TypeError\<close>\<close>
  "total_recommended [] = Inr 0"
| "total_recommended ((year, data) # rest) =
     (case py_len (dict_get data ''recommended_crawl_pages'' (JList [])) of
        Inl e \<Rightarrow> Inl e
      | Inr n \<Rightarrow> (case total_recommended rest of Inl e \<Rightarrow> Inl e | Inr t \<Rightarrow> Inr (n + t)))"

definition generate_llm_planning ::
  "env \<Rightarrow> planner \<Rightarrow> (string \<times> string list) list \<Rightarrow> string \<Rightarrow> int \<Rightarrow> world
     \<Rightarrow> (error + planner) \<times> world" where
  \<comment> \<open>\<open>generate_llm_planning\<close>: the result and the world afterwards. After the final
      write the recommended URLs of all years are counted for the log, outside any
      \<open>try\<close>: an exception there leaves the document written and is raised.\<close>
  "generate_llm_planning E self year_links_map company crawl_num w =
     (let existing_results = (case planning_file w of Content d \<Rightarrow> yearly_analysis_results d | _ \<Rightarrow> [])
      in if core_page_types self = [] \<and> core_types_file w = Absent then (Inl RuntimeError, w)
         else
           let self1 = (if core_page_types self = [] then load_core_page_types self (core_types_file w)
                        else self);
               self2 = compile_core_type_patterns self1;
               (yearly_analysis, w1) = plan_years E self2 company crawl_num year_links_map existing_results w;
               w2 = write_planning_file E company yearly_analysis w1
           in case total_recommended yearly_analysis of
                Inl e \<Rightarrow> (Inl e, w2)
              | Inr total_urls \<Rightarrow> (Inr self2, w2))"

definition load_llm_planning :: "world \<Rightarrow> (string \<times> (string \<times> json) list) list" where
  "load_llm_planning w = (case planning_file w of Content d \<Rightarrow> yearly_analysis_results d | _ \<Rightarrow> [])"

section \<open>The scenario stage\<close>

text \<open>
  The tagging of one year's pages (\<open>_analyze_scenarios_for_year\<close>) is the environment's
  \<open>analyze_scenarios_for_year\<close>: it fetches pages and scans them for keywords. The
  average in the summary is a floating-point number and is left out of the document.
\<close>

definition stage_of_scenario :: "string \<Rightarrow> string option" where
  \<comment> \<open>the stage whose counter a scenario such as \<open>3.2_Compare\<close> increments\<close>
  "stage_of_scenario scenario =
     (let scenario_id = takeWhile (\<lambda>c. c \<noteq> CHR ''_'') scenario
      in if startswith scenario_id ''1.'' then Some ''Awareness Stage''
         else if startswith scenario_id ''2.'' then Some ''Interest Stage''
         else if startswith scenario_id ''3.'' then Some ''Consideration Stage''
         else if startswith scenario_id ''4.'' then Some ''Decision Stage''
         else if startswith scenario_id ''5.'' then Some ''Fulfillment Stage''
         else if startswith scenario_id ''6.'' then Some ''Retention Stage''
         else None)"

definition categorize_scenarios_by_stage :: "string list \<Rightarrow> (string \<times> json) list" where
  "categorize_scenarios_by_stage scenarios =
     map (\<lambda>st. (st, JInt (int (length (filter (\<lambda>s. stage_of_scenario s = Some st) scenarios)))))
       [''Awareness Stage'', ''Interest Stage'', ''Consideration Stage'', ''Decision Stage'',
        ''Fulfillment Stage'', ''Retention Stage'']"

fun nat_text :: "nat \<Rightarrow> string" where
  \<comment> \<open>a number in decimal\<close>
  "nat_text n = (if n < 10 then [char_of (48 + n)] else nat_text (n div 10) @ [char_of (48 + n mod 10)])"

declare nat_text.simps [simp del]

fun sum_scenario_counts :: "(string \<times> (string \<times> json) list) list \<Rightarrow> error + int" where
  \<comment> \<open>\<open>sum(data.get("total_scenario_count", 0) for data in ...)\<close>: only numbers add up\<close>
  "sum_scenario_counts [] = Inr 0"
| "sum_scenario_counts ((year, data) # rest) =
     (case py_num (dict_get data ''total_scenario_count'' (JInt 0)) of
        None \<Rightarrow> Inl TypeError
      | Some n \<Rightarrow> (case sum_scenario_counts rest of Inl e \<Rightarrow> Inl e | Inr t \<Rightarrow> Inr (n + t)))"

definition generate_analysis_summary ::
  "env \<Rightarrow> string \<Rightarrow> (string \<times> (string \<times> json) list) list \<Rightarrow> world \<Rightarrow> error option \<times> world" where
  \<comment> \<open>\<open>_generate_analysis_summary\<close>: nothing is written for an empty result; a failed
      write is raised, not caught\<close>
  "generate_analysis_summary E company yearly_scenario_data w =
     (if yearly_scenario_data = [] then (None, w)
      else (case sum_scenario_counts yearly_scenario_data of
              Inl e \<Rightarrow> (Some e, w)
            | Inr total_scenarios \<Rightarrow>
                let summary = \<lparr>analysis_version = ''Scenario_Analyzer_v1.0'', sd_company_url = company,
                                generation_time = clock E (tick w),
                                analyzed_years_count = length yearly_scenario_data,
                                total_identified_scenarios = total_scenarios,
                                yearly_detailed_results = yearly_scenario_data\<rparr>;
                    w' = w\<lparr>tick := Suc (tick w)\<rparr>
                in (case disk E (tick w) of
                      Io_ok \<Rightarrow> (None, w'\<lparr>scenarios_file := Content summary\<rparr>)
                    | Io_open_fails \<Rightarrow> (Some (CollaboratorError ''OSError''), w')
                    | Io_write_fails \<Rightarrow>
                        (Some (CollaboratorError ''OSError''), w'\<lparr>scenarios_file := Unreadable\<rparr>))))"

definition error_record :: "env \<Rightarrow> error \<Rightarrow> (string \<times> json) list" where
  \<comment> \<open>what the \<open>except\<close> branch stores for the year\<close>
  "error_record E e =
     [(''identified_scenarios'', JList []), (''total_scenario_count'', JInt 0),
      (''error'', JStr (str_of_exception E e))]"

definition analyze_year ::
  "env \<Rightarrow> string \<Rightarrow> string \<Rightarrow> json \<Rightarrow> (string \<times> (string \<times> json) list) list \<Rightarrow> world
     \<Rightarrow> (string \<times> (string \<times> json) list) list \<times> world" where
  \<comment> \<open>the \<open>try\<close> and its \<open>except\<close> for one year with a non-empty URL list: the year's
      record is stored before the incremental save, and the \<open>except\<close> branch stores an
      error record under the same year. The clock is read before the length of
      \<open>crawl_urls\<close> is taken.\<close>
  "analyze_year E company year crawl_urls data w =
     (let w1 = w\<lparr>calls := calls w @ [Tag_call year]\<rparr>
      in case analyze_scenarios_for_year E year crawl_urls of
           Inl e \<Rightarrow> (dict_set data year (error_record E e), w1)
         | Inr (year_scenarios, successful_pages) \<Rightarrow>
             (case py_len crawl_urls of
                Inl e \<Rightarrow> (dict_set data year (error_record E e), w1\<lparr>tick := Suc (tick w1)\<rparr>)
              | Inr n \<Rightarrow>
                  let data1 = dict_set data year
                        [(''identified_scenarios'', JList (map JStr year_scenarios)),
                         (''total_scenario_count'', JInt (int (length year_scenarios))),
                         (''analysis_time'', JStr (clock E (tick w1))),
                         (''llm_recommended_pages_count'', JInt (int n)),
                         (''page_success_rate'', JStr (nat_text successful_pages @ ''/'' @ nat_text n)),
                         (''stage_distribution'', JObj (categorize_scenarios_by_stage year_scenarios))];
                      w2 = w1\<lparr>tick := Suc (tick w1)\<rparr>
                  in (case generate_analysis_summary E company data1 w2 of
                        (None, w3) \<Rightarrow> (data1, w3)
                      | (Some e, w3) \<Rightarrow> (dict_set data1 year (error_record E e), w3))))"

fun analyze_years ::
  "env \<Rightarrow> string \<Rightarrow> (string \<times> (string \<times> json) list) list
     \<Rightarrow> (string \<times> (string \<times> json) list) list \<Rightarrow> world
     \<Rightarrow> (string \<times> (string \<times> json) list) list \<times> world" where
  \<comment> \<open>the loop over the planned years: a year already in \<open>yearly_scenario_data\<close> is
      skipped, and so is a year with no recommended URL\<close>
  "analyze_years E company [] data w = (data, w)"
| "analyze_years E company ((year, planning_data) # rest) data w =
     (if year \<in> set (map fst data) then analyze_years E company rest data w
      else
        let crawl_urls = dict_get planning_data ''recommended_crawl_pages'' (JList [])
        in if \<not> py_truthy crawl_urls then analyze_years E company rest data w
           else (case analyze_year E company year crawl_urls data w of
                   (data1, w1) \<Rightarrow> analyze_years E company rest data1 w1))"

definition analyze_scenarios_for_company ::
  "env \<Rightarrow> (string \<times> (string \<times> json) list) list \<Rightarrow> string \<Rightarrow> world \<Rightarrow> error option \<times> world" where
  "analyze_scenarios_for_company E llm_planning_results company w =
     (let existing_results = (case scenarios_file w of Content d \<Rightarrow> yearly_detailed_results d | _ \<Rightarrow> [])
      in case analyze_years E company llm_planning_results existing_results w of
           (data, w1) \<Rightarrow> generate_analysis_summary E company data w1)"

section \<open>Link discovery\<close>

text \<open>
  The download and the HTML parser are the environment's \<open>fetch_hrefs\<close>: the \<open>href\<close>
  values of the \<open>a\<close> and \<open>area\<close> elements of the page, in document order, or the
  exception raised on the way. \<open>urljoin\<close> is the library's and may raise as \<open>urlparse\<close>
  does. The set of discovered links is a duplicate-free list; \<open>list_of_set\<close> is the order
  in which Python enumerates it.
\<close>

record web =
  host_ok :: "string \<Rightarrow> bool"
  fetch_hrefs :: "string \<Rightarrow> error + string list"
  urljoin :: "string \<Rightarrow> string \<Rightarrow> error + string"
  list_of_set :: "string list \<Rightarrow> string list"

fun endswith :: "string \<Rightarrow> string \<Rightarrow> bool" where
  "endswith s e = startswith (rev s) (rev e)"

definition search_at_end :: "string \<Rightarrow> string \<Rightarrow> bool" where
  \<comment> \<open>\<open>re.search\<close> of a literal followed by \<open>$\<close>: at the end, or before a final newline\<close>
  "search_at_end ext s = (endswith s ext \<or> endswith s (ext @ [CHR 0x0A]))"

definition should_include_url :: "string \<Rightarrow> bool" where
  \<comment> \<open>\<open>_should_include_url\<close> over \<open>exclude_patterns\<close>\<close>
  "should_include_url u =
     (let url_lower = py_lower u
      in \<not> (list_ex (\<lambda>ext. search_at_end ext url_lower)
                [''.pdf'', ''.jpg'', ''.png'', ''.gif'', ''.css'', ''.js'']
            \<or> list_ex (\<lambda>p. py_in p url_lower)
                [''/legal/'', ''/privacy/'', ''/terms/'', ''/cookie'', ''/sitemap'', ''/robots'',
                 ''/favicon'', ''mailto:'', ''tel:'', ''#'', ''javascript:'']))"

definition repair_joined :: "string \<Rightarrow> string" where
  \<comment> \<open>the two repairs applied to what \<open>urljoin\<close> returns\<close>
  "repair_joined full_url =
     (let f1 = (if py_in ''/web/'' full_url \<and> py_in ''http:/'' full_url \<and> \<not> py_in ''http://'' full_url
                then py_replace ''http:/'' ''http://'' full_url else full_url)
      in if py_in ''/web/'' f1 \<and> py_in ''https:/'' f1 \<and> \<not> py_in ''https://'' f1
         then py_replace ''https:/'' ''https://'' f1 else f1)"

definition set_add :: "string list \<Rightarrow> string \<Rightarrow> string list" where
  "set_add discovered u = (if u \<in> set discovered then discovered else discovered @ [u])"

fun discover_loop ::
  "web \<Rightarrow> string \<Rightarrow> string \<Rightarrow> int \<Rightarrow> string list \<Rightarrow> string list \<Rightarrow> error + string list" where
  \<comment> \<open>the loop over the \<open>href\<close> values, with its \<open>continue\<close> and its \<open>break\<close>\<close>
  "discover_loop W homepage_url home_host max_links [] discovered = Inr discovered"
| "discover_loop W homepage_url home_host max_links (href # hrefs) discovered =
     (if href = [] then discover_loop W homepage_url home_host max_links hrefs discovered
      else (case urljoin W homepage_url href of
              Inl e \<Rightarrow> Inl e
            | Inr joined \<Rightarrow>
                let full_url = repair_joined joined
                in (case get_home_host (host_ok W) full_url of
                      Inl e \<Rightarrow> Inl e
                    | Inr candidate_host \<Rightarrow>
                        if candidate_host = [] \<or> candidate_host = home_host
                        then (let clean_url = takeWhile (\<lambda>c. c \<noteq> CHR ''#'') full_url
                              in if should_include_url clean_url
                                 then (let discovered1 = set_add discovered clean_url
                                       in if int (length discovered1) \<ge> max_links then Inr discovered1
                                          else discover_loop W homepage_url home_host max_links hrefs discovered1)
                                 else discover_loop W homepage_url home_host max_links hrefs discovered)
                        else discover_loop W homepage_url home_host max_links hrefs discovered)))"

definition discover_body :: "web \<Rightarrow> string \<Rightarrow> int \<Rightarrow> error + string list" where
  \<comment> \<open>the body of the \<open>try\<close>\<close>
  "discover_body W homepage_url max_links =
     (case fetch_hrefs W homepage_url of
        Inl e \<Rightarrow> Inl e
      | Inr hrefs \<Rightarrow>
          (case get_home_host (host_ok W) homepage_url of
             Inl e \<Rightarrow> Inl e
           | Inr home_host \<Rightarrow>
               (case discover_loop W homepage_url home_host max_links hrefs [homepage_url] of
                  Inl e \<Rightarrow> Inl e
                | Inr discovered_links \<Rightarrow> Inr (list_of_set W discovered_links))))"

definition discover_internal_links :: "web \<Rightarrow> string \<Rightarrow> int \<Rightarrow> string list" where
  \<comment> \<open>\<open>except Exception\<close>: the home page alone\<close>
  "discover_internal_links W homepage_url max_links =
     (case discover_body W homepage_url max_links of
        Inl e \<Rightarrow> [homepage_url]
      | Inr result \<Rightarrow> result)"

section \<open>The URL stage and the pipeline\<close>











section \<open>The classifier's contract, in the words of the specification\<close>


section \<open>The compiled regex, characterised\<close>

definition literal_regex :: "string \<Rightarrow> re_item list" where
  \<comment> \<open>the regex that matches the text itself, character by character\<close>
  "literal_regex s = map (\<lambda>c. One (Lit c)) s"

fun translated_text :: "string \<Rightarrow> string" where
  \<comment> \<open>the escaped pattern after the replacement, computed from the pattern directly:
      only a backslash followed by a star changes, into an escaped dot and a star\<close>
  "translated_text [] = []"
| "translated_text [c] = re_escape [c]"
| "translated_text (c # d # p) =
     (if c = CHR 0x5C \<and> d = CHR ''*'' then CHR 0x5C # ''.*'' @ translated_text p
      else re_escape [c] @ translated_text (d # p))"

fun translated_regex :: "string \<Rightarrow> re_item list" where
  \<comment> \<open>its regex: every character of the pattern literally, but a backslash followed by
      a star as a run of dots\<close>
  "translated_regex [] = []"
| "translated_regex [c] = [One (Lit c)]"
| "translated_regex (c # d # p) =
     (if c = CHR 0x5C \<and> d = CHR ''*'' then Star (Lit CHR ''.'') # translated_regex p
      else One (Lit c) # translated_regex (d # p))"

section \<open>Concrete inputs\<close>

definition product_planner :: planner where
  \<comment> \<open>a fresh planner whose taxonomy lists the wildcard pattern first\<close>
  "product_planner =
     \<lparr>core_page_types = [],
      core_page_types_nested =
        [(''Consideration Stage'',
          [\<lparr>type_name = Some ''Product list'', typical_url_patterns = Some [''/product/*'']\<rparr>,
           \<lparr>type_name = Some ''Featured product'', typical_url_patterns = Some [''/product/featured'']\<rparr>])],
      compiled_patterns = None\<rparr>"

definition overlap_planner :: planner where
  \<comment> \<open>a fresh planner with two patterns that both match \<open>/product/featured\<close>, the
      shorter one listed first\<close>
  "overlap_planner =
     \<lparr>core_page_types = [],
      core_page_types_nested =
        [(''Consideration Stage'',
          [\<lparr>type_name = Some ''Product list'', typical_url_patterns = Some [''/product'']\<rparr>,
           \<lparr>type_name = Some ''Featured product'', typical_url_patterns = Some [''/product/featured'']\<rparr>])],
      compiled_patterns = None\<rparr>"

definition product_types_doc :: core_types_doc where
  \<comment> \<open>the stored taxonomy of \<open>product_planner\<close>\<close>
  "product_types_doc =
     \<lparr>ct_generation_time = ''2025-01-01 00:00:00'', ct_company_url = ''shop.example'',
      ct_core_page_types = core_page_types_nested product_planner, total_types = 2\<rparr>"

definition any_bracketed_host :: "string \<Rightarrow> bool" where
  \<comment> \<open>an address library that accepts every bracketed host\<close>
  "any_bracketed_host h = True"

definition demo_links :: "string list" where
  \<comment> \<open>two links with the same path on different hosts, and one that no pattern matches\<close>
  "demo_links = [''https://shop.example/product/featured'', ''https://other.example/product/featured'',
                 ''https://shop.example/about'']"

definition two_digits :: "nat \<Rightarrow> string" where
  "two_digits n = [char_of (48 + n div 10 mod 10), char_of (48 + n mod 10)]"

definition demo_clock :: "nat \<Rightarrow> string" where
  \<comment> \<open>a clock that moves on by a second at every reading and every write\<close>
  "demo_clock k = ''2025-01-01 00:'' @ two_digits (k div 60) @ '':'' @ two_digits (k mod 60)"

definition demo_env :: env where
  \<comment> \<open>a selection service that recommends every classified URL, the clock \<open>demo_clock\<close>,
      a disk that never fails\<close>
  "demo_env =
     \<lparr>bracketed_host_ok = any_bracketed_host,
      generate_taxonomy = (\<lambda>sample_links.
         Inr (core_page_types (load_core_page_types product_planner (Content product_types_doc)),
              core_page_types_nested product_planner)),
      select_core_urls = (\<lambda>year classified n.
         Inr (JObj [(''core_url_recommendations'',
                JObj [(''recommended_url_list'', JList (map (\<lambda>c. JStr (url c)) classified))])])),
      analyze_scenarios_for_year = (\<lambda>year urls. Inr ([''1.1_Landing''], 1)),
      clock = demo_clock,
      disk = (\<lambda>k. Io_ok),
      str_of_exception = (\<lambda>e. ''error'')\<rparr>"



definition twenty_urls :: "string list" where
  "twenty_urls = [''u1'', ''u2'', ''u3'', ''u4'', ''u5'', ''u6'', ''u7'', ''u8'', ''u9'', ''u10'',
                  ''u11'', ''u12'', ''u13'', ''u14'', ''u15'', ''u16'', ''u17'', ''u18'', ''u19'', ''u20'']"

definition result_keys :: "string list" where
  \<comment> \<open>the keys of the postprocessor's result, in order\<close>
  "result_keys =
     [''analysis_time'', ''using_real_llm'', ''llm_model'', ''year'', ''discovered_links_count'',
      ''valid_content_urls_count'', ''recommended_crawl_pages'', ''recommended_pages_count'',
      ''recommended_in_valid_overlap'', ''enforce_recommended_in_valid_list'', ''core_url_details'']"

definition demo_web :: web where
  \<comment> \<open>a home page with five links, one of them empty, one to another host, one excluded,
      one with a fragment; Python enumerates the set in reverse insertion order\<close>
  "demo_web =
     \<lparr>host_ok = any_bracketed_host,
      fetch_hrefs = (\<lambda>u. if u = ''https://shop.example/''
                          then Inr [''/product/featured'', [], ''https://other.example/x'',
                                    ''/legal/terms'', ''/about#team'']
                          else Inl (CollaboratorError ''HTTPError'')),
      urljoin = (\<lambda>base href. if startswith href ''http'' then Inr href
                               else Inr (''https://shop.example'' @ href)),
      list_of_set = rev\<rparr>"

definition empty_world :: world where
  \<comment> \<open>before the first run of the pipeline\<close>
  "empty_world =
     \<lparr>links_file = Absent, core_types_file = Absent, planning_file = Absent,
      scenarios_file = Absent, tick = 0, calls = []\<rparr>"






definition flaky_env :: env where
  \<comment> \<open>as \<open>demo_env\<close>, but the second disk write fails when the file is opened\<close>
  "flaky_env = demo_env\<lparr>disk := (\<lambda>k. if k = 1 then Io_open_fails else Io_ok)\<rparr>"

definition planned_2015 :: "(string \<times> (string \<times> json) list) list" where
  \<comment> \<open>a plan with one year and one recommended page\<close>
  "planned_2015 = [(''2015'', [(''recommended_crawl_pages'', JList [JStr ''https://shop.example/''])])]"

definition error_2015 :: "(string \<times> (string \<times> json) list) list" where
  \<comment> \<open>the record the scenario stage stores for a year that raised\<close>
  "error_2015 =
     [(''2015'', [(''identified_scenarios'', JList []), (''total_scenario_count'', JInt 0),
                  (''error'', JStr ''error'')])]"

section \<open>The order of the matchers\<close>

lemma sort_matchers_sorted: "sorted_wrt (\<lambda>a b. m_len b \<le> m_len a) (sort_matchers ms)"
proof -
  have "sorted (map (\<lambda>x. - int (m_len x)) (sort_key (\<lambda>x. - int (m_len x)) ms))"
    by (rule sorted_sort_key)
  then show ?thesis
    by (simp add: sort_matchers_def sorted_map)
qed

lemma sort_matchers_stable:
  "filter (\<lambda>m. m_len m = k) (sort_matchers ms) = filter (\<lambda>m. m_len m = k) ms"
proof -
  have "filter (\<lambda>m. - int (m_len m) = - int k) (sort_key (\<lambda>x. - int (m_len x)) ms)
        = filter (\<lambda>m. - int (m_len m) = - int k) ms"
    by (rule sort_key_stable)
  then show ?thesis by (simp add: sort_matchers_def)
qed

lemma first_match_Some:
  "first_match ms p = Some m \<Longrightarrow> m \<in> set ms \<and> re_match (m_regex m) p"
  by (induction ms) (auto split: if_splits)



lemma first_match_most_specific:
  "sorted_wrt (\<lambda>a b. m_len b \<le> m_len a) ms \<Longrightarrow> first_match ms p = Some m \<Longrightarrow>
   m' \<in> set ms \<Longrightarrow> re_match (m_regex m') p \<Longrightarrow> m_len m' \<le> m_len m"
  by (induction ms) (auto split: if_splits dest: first_match_Some)

lemma compile_fresh:
  assumes "compiled_patterns self = None \<or> compiled_patterns self = Some []"
  shows "compiled_patterns (compile_core_type_patterns self)
         = Some (sort_matchers (compile_stages (core_page_types_nested (compile_core_type_patterns self))))"
  using assms by (auto simp: compile_core_type_patterns_def Let_def)

text \<open>
  C6. A planner that has not compiled its patterns yet gets a matcher list that is sorted
  by pattern length, longest first, and in which matchers of equal length keep the order
  in which the taxonomy lists them. So the first matcher that matches a path is one of
  greatest length among those that match. With the patterns \<open>/product/*\<close> and
  \<open>/product/featured\<close> the link with path \<open>/product/featured\<close> gets the type that
  owns \<open>/product/featured\<close>.
\<close>

theorem compiled_matchers_sorted_stable:
  assumes "compiled_patterns self = None \<or> compiled_patterns self = Some []"
  shows "\<exists>ms. compiled_patterns (compile_core_type_patterns self) = Some ms
           \<and> sorted_wrt (\<lambda>a b. m_len b \<le> m_len a) ms
           \<and> (\<forall>k. filter (\<lambda>m. m_len m = k) ms
                    = filter (\<lambda>m. m_len m = k)
                        (compile_stages (core_page_types_nested (compile_core_type_patterns self))))
           \<and> (\<forall>p m m'. first_match ms p = Some m \<and> m' \<in> set ms \<and> re_match (m_regex m') p
                    \<longrightarrow> m_len m' \<le> m_len m)
           \<and> fst (classify_candidate_urls ok (compile_core_type_patterns product_planner) year
                    [''https://shop.example/product/featured''] [])
               = Inr [\<lparr>url = ''https://shop.example/product/featured'',
                       customer_journey_stage = ''Consideration Stage'',
                       entry_type_name = ''Featured product''\<rparr>]"
proof -
  let ?ms = "sort_matchers (compile_stages (core_page_types_nested (compile_core_type_patterns self)))"
  have c: "compiled_patterns (compile_core_type_patterns self) = Some ?ms"
    by (rule compile_fresh [OF assms])
  have s: "sorted_wrt (\<lambda>a b. m_len b \<le> m_len a) ?ms"
    by (rule sort_matchers_sorted)
  have t: "\<forall>k. filter (\<lambda>m. m_len m = k) ?ms
             = filter (\<lambda>m. m_len m = k)
                 (compile_stages (core_page_types_nested (compile_core_type_patterns self)))"
    by (simp add: sort_matchers_stable)
  have f: "\<forall>p m m'. first_match ?ms p = Some m \<and> m' \<in> set ?ms \<and> re_match (m_regex m') p
             \<longrightarrow> m_len m' \<le> m_len m"
    using first_match_most_specific [OF s] by blast
  have l: "link_location ok ''https://shop.example/product/featured''
           = Inr (''shop.example'', ''/product/featured'')"
    by code_simp
  have p: "compiled_patterns (compile_core_type_patterns product_planner)
           = Some [\<lparr>m_stage = ''Consideration Stage'', m_type_name = ''Featured product'',
                    m_regex = literal_regex ''/product/featured'', m_len = 17\<rparr>,
                   \<lparr>m_stage = ''Consideration Stage'', m_type_name = ''Product list'',
                    m_regex = literal_regex ''/product/*'', m_len = 10\<rparr>]"
    by code_simp
  have m: "re_match (literal_regex ''/product/featured'') ''/product/featured''"
    by code_simp
  have e: "fst (classify_candidate_urls ok (compile_core_type_patterns product_planner) year
                    [''https://shop.example/product/featured''] [])
               = Inr [\<lparr>url = ''https://shop.example/product/featured'',
                       customer_journey_stage = ''Consideration Stage'',
                       entry_type_name = ''Featured product''\<rparr>]"
    by (simp add: classify_candidate_urls_def l p m cross_domain_def)
  from c s t f e show ?thesis by blast
qed

theorem compiled_matchers_sorted_stable_witness:
  "(compiled_patterns overlap_planner = None \<or> compiled_patterns overlap_planner = Some [])
   \<and> (\<exists>ms. compiled_patterns (compile_core_type_patterns overlap_planner) = Some ms
          \<and> first_match ms ''/product/featured''
              = Some \<lparr>m_stage = ''Consideration Stage'', m_type_name = ''Featured product'',
                      m_regex = literal_regex ''/product/featured'', m_len = 17\<rparr>
          \<and> \<lparr>m_stage = ''Consideration Stage'', m_type_name = ''Product list'',
              m_regex = literal_regex ''/product'', m_len = 8\<rparr> \<in> set ms
          \<and> re_match (literal_regex ''/product'') ''/product/featured''
          \<and> sorted_wrt (\<lambda>a b. m_len b \<le> m_len a) ms)"
proof -
  have h: "compiled_patterns overlap_planner = None \<or> compiled_patterns overlap_planner = Some []"
    by (simp add: overlap_planner_def)
  obtain ms where ms: "compiled_patterns (compile_core_type_patterns overlap_planner) = Some ms"
    and srt: "sorted_wrt (\<lambda>a b. m_len b \<le> m_len a) ms"
    using compiled_matchers_sorted_stable [OF h] by blast
  have p: "compiled_patterns (compile_core_type_patterns overlap_planner)
           = Some [\<lparr>m_stage = ''Consideration Stage'', m_type_name = ''Featured product'',
                    m_regex = literal_regex ''/product/featured'', m_len = 17\<rparr>,
                   \<lparr>m_stage = ''Consideration Stage'', m_type_name = ''Product list'',
                    m_regex = literal_regex ''/product'', m_len = 8\<rparr>]"
    by code_simp
  have m1: "re_match (literal_regex ''/product/featured'') ''/product/featured''"
    by code_simp
  have m2: "re_match (literal_regex ''/product'') ''/product/featured''"
    by code_simp
  from ms p have eq: "ms = [\<lparr>m_stage = ''Consideration Stage'', m_type_name = ''Featured product'',
                    m_regex = literal_regex ''/product/featured'', m_len = 17\<rparr>,
                   \<lparr>m_stage = ''Consideration Stage'', m_type_name = ''Product list'',
                    m_regex = literal_regex ''/product'', m_len = 8\<rparr>]"
    by simp
  have fm: "first_match ms ''/product/featured''
              = Some \<lparr>m_stage = ''Consideration Stage'', m_type_name = ''Featured product'',
                      m_regex = literal_regex ''/product/featured'', m_len = 17\<rparr>"
    by (simp add: eq m1)
  have mem: "\<lparr>m_stage = ''Consideration Stage'', m_type_name = ''Product list'',
              m_regex = literal_regex ''/product'', m_len = 8\<rparr> \<in> set ms"
    by (simp add: eq)
  from h ms fm mem m2 srt show ?thesis by blast
qed

section \<open>What the compiled patterns match\<close>

lemma special_not_alnum: "re_special c \<Longrightarrow> \<not> re_alnum c"
  by (auto simp: re_special_def re_alnum_def Let_def)

lemma plain_char:
  "\<not> re_special c \<Longrightarrow>
   c \<noteq> CHR 0x5C \<and> c \<noteq> CHR ''.'' \<and> c \<noteq> CHR ''^'' \<and> c \<noteq> CHR ''$'' \<and> c \<noteq> CHR ''*''
   \<and> c \<notin> set ''*+?{}()[]|'' \<and> c \<notin> set ''+?{''"
  by (auto simp: re_special_def)

lemma special_chars: "re_special (CHR 0x5C)" "re_special (CHR ''*'')" "re_special (CHR ''.'')"
  by (simp_all add: re_special_def)

lemma escape_head:
  "re_escape p = x # r \<Longrightarrow> x = CHR 0x5C \<or> \<not> re_special x"
  by (cases p) (auto split: if_splits)

lemma escape_head_star:
  "re_escape p = CHR 0x5C # y # r \<Longrightarrow> y = hd p"
  by (cases p) (auto split: if_splits simp: special_chars)

lemma replace_escape:
  "py_replace [CHR 0x5C, CHR 0x5C, CHR ''*''] ''.*'' (re_escape p) = translated_text p"
proof (induction p rule: translated_text.induct)
  case 1
  then show ?case by simp
next
  case (2 c)
  then show ?case by (auto)
next
  case (3 c d p)
  show ?case
  proof (cases "c = CHR 0x5C \<and> d = CHR ''*''")
    case True
    with 3 show ?thesis by (simp add: special_chars)
  next
    case False
    with 3 have IH: "py_replace [CHR 0x5C, CHR 0x5C, CHR ''*''] ''.*'' (re_escape (d # p))
                     = translated_text (d # p)" by simp
    show ?thesis
    proof (cases "re_special c")
      case sc: True
      show ?thesis
      proof (cases "c = CHR 0x5C")
        case True
        with False have d: "d \<noteq> CHR ''*''" by simp
        have n1: "\<not> startswith (re_escape (d # p)) [CHR ''*'']"
          using d by (auto simp: special_chars)
        have n2: "\<not> startswith (re_escape (d # p)) [CHR 0x5C, CHR ''*'']"
          using d by (auto simp: special_chars)
        from True sc False IH n1 n2 show ?thesis
          by (simp add: special_chars)
      next
        case nb: False
        with sc False IH show ?thesis by simp
      qed
    next
      case nsc: False
      from plain_char [OF this] nsc False IH show ?thesis by simp
    qed
  qed
qed

lemma text_head: "translated_text p = x # r \<Longrightarrow> x = CHR 0x5C \<or> \<not> re_special x"
  by (induction p rule: translated_text.induct) (auto split: if_splits)

lemma re_quantified_text: "re_quantified a (translated_text p) = Some (One a, translated_text p)"
proof (cases "translated_text p")
  case Nil
  then show ?thesis by (simp add: re_quantified_def)
next
  case (Cons x r)
  from text_head [OF this] show ?thesis
  proof
    assume "x = CHR 0x5C"
    with Cons show ?thesis by (simp add: re_quantified_def)
  next
    assume "\<not> re_special x"
    from plain_char [OF this] Cons show ?thesis by (simp add: re_quantified_def)
  qed
qed

lemma re_quantified_star:
  "re_quantified a (CHR ''*'' # translated_text p) = Some (Star a, translated_text p)"
proof (cases "translated_text p")
  case Nil
  then show ?thesis by (simp add: re_quantified_def)
next
  case (Cons x r)
  from text_head [OF this] show ?thesis
  proof
    assume "x = CHR 0x5C"
    with Cons show ?thesis by (simp add: re_quantified_def)
  next
    assume "\<not> re_special x"
    from plain_char [OF this] Cons show ?thesis by (simp add: re_quantified_def)
  qed
qed

lemma re_next_escaped_char:
  "re_next (re_escape [c] @ translated_text p) = Some (One (Lit c), translated_text p)"
proof (cases "re_special c")
  case True
  then show ?thesis by (simp add: re_next_def special_not_alnum re_quantified_text)
next
  case False
  from plain_char [OF this] False show ?thesis by (simp add: re_next_def re_quantified_text)
qed

lemma re_compile_step:
  "re_next s = Some (i, r) \<Longrightarrow> re_compile r = Some rs \<Longrightarrow> re_compile s = Some (i # rs)"
  by (subst re_compile.simps) (auto simp: re_next_def)

lemma re_compile_text: "re_compile (translated_text p) = Some (translated_regex p)"
proof (induction p rule: translated_text.induct)
  case 1
  then show ?case by (simp add: re_compile.simps)
next
  case (2 c)
  have n: "re_next (re_escape [c] @ translated_text []) = Some (One (Lit c), translated_text [])"
    by (rule re_next_escaped_char)
  have e: "re_compile (translated_text []) = Some []"
    by (simp add: re_compile.simps)
  from re_compile_step [OF n e] show ?case by simp
next
  case (3 c d p)
  show ?case
  proof (cases "c = CHR 0x5C \<and> d = CHR ''*''")
    case True
    have n: "re_next (CHR 0x5C # CHR ''.'' # CHR ''*'' # translated_text p)
             = Some (Star (Lit CHR ''.''), translated_text p)"
      by (simp add: re_next_def re_alnum_def re_quantified_star)
    from True 3 have IH: "re_compile (translated_text p) = Some (translated_regex p)" by simp
    have t: "translated_text (c # d # p) = CHR 0x5C # CHR ''.'' # CHR ''*'' # translated_text p"
      using True by simp
    have r: "translated_regex (c # d # p) = Star (Lit CHR ''.'') # translated_regex p"
      using True by simp
    show ?thesis
      unfolding t r by (rule re_compile_step [OF n IH])
  next
    case False
    have n: "re_next (re_escape [c] @ translated_text (d # p))
             = Some (One (Lit c), translated_text (d # p))"
      by (rule re_next_escaped_char)
    from False 3 have IH: "re_compile (translated_text (d # p)) = Some (translated_regex (d # p))"
      by simp
    have t: "translated_text (c # d # p) = re_escape [c] @ translated_text (d # p)"
      by (simp only: translated_text.simps False if_False)
    have r: "translated_regex (c # d # p) = One (Lit c) # translated_regex (d # p)"
      by (simp only: translated_regex.simps False if_False)
    show ?thesis
      unfolding t r by (rule re_compile_step [OF n IH])
  qed
qed

text \<open>
  Every pattern compiles, to the regex that \<open>translated_regex\<close> describes or to the
  root regex: the branch that skips a pattern is never taken, and the specificity of
  each matcher is the length of its pattern.
\<close>

lemma root_regex: "re_compile ''^/$'' = Some [Bol, One (Lit CHR ''/''), Eol]"
  by code_simp

lemma pattern_always_compiles:
  "re_compile (pattern_regex raw_pat)
   = Some (if py_strip raw_pat = ''/'' then [Bol, One (Lit CHR ''/''), Eol] else translated_regex raw_pat)"
  by (simp add: pattern_regex_def root_regex replace_escape re_compile_text)

lemma compile_patterns_keeps_all:
  "map m_len (compile_patterns stage tname pats) = map length pats"
  by (induction pats) (simp_all add: pattern_always_compiles)

lemma literal_match_here:
  "re_match_here (literal_regex p) b s \<longleftrightarrow> startswith (py_lower s) (py_lower p)"
proof (induction p arbitrary: b s)
  case Nil
  then show ?case by (simp add: literal_regex_def py_lower_def)
next
  case (Cons c p)
  show ?case
  proof (cases s)
    case Nil
    then show ?thesis by (simp add: literal_regex_def py_lower_def)
  next
    case (Cons d s')
    have "re_match_here (literal_regex (c # p)) b (d # s')
          \<longleftrightarrow> py_lower_char d = py_lower_char c \<and> re_match_here (literal_regex p) False s'"
      by (simp add: literal_regex_def atom_matches_def)
    with Cons.IH [of False s'] Cons show ?thesis
      by (simp add: py_lower_def)
  qed
qed

lemma translated_regex_literal: "CHR 0x5C \<notin> set p \<Longrightarrow> translated_regex p = literal_regex p"
  by (induction p rule: translated_regex.induct) (auto simp: literal_regex_def)

text \<open>
  For a pattern without a backslash that is not the root pattern, the compiled regex
  matches exactly the texts that start with the pattern itself, up to case: a star in
  the pattern stands for a star.
\<close>

lemma pattern_without_backslash_matches:
  "CHR 0x5C \<notin> set raw_pat \<Longrightarrow> py_strip raw_pat \<noteq> ''/'' \<Longrightarrow>
   \<exists>regex. re_compile (pattern_regex raw_pat) = Some regex
     \<and> (\<forall>s. re_match regex s \<longleftrightarrow> startswith (py_lower s) (py_lower raw_pat))"
  by (simp add: pattern_always_compiles translated_regex_literal re_match_def literal_match_here)

text \<open>
  C1. The pattern \<open>/product/*\<close> is not the root pattern. Its regex is the pattern text
  taken literally, star included: it matches the path \<open>/product/*\<close> and does not match
  \<open>/product/featured\<close>, a path made of the pattern's prefix and a suffix in place of the
  star.
\<close>

theorem wildcard_is_matched_literally:
  "py_strip ''/product/*'' \<noteq> ''/''
   \<and> pattern_regex ''/product/*'' = ''/product/'' @ [CHR 0x5C, CHR ''*'']
   \<and> re_compile (pattern_regex ''/product/*'') = Some (literal_regex ''/product/*'')
   \<and> \<not> re_match (literal_regex ''/product/*'') (''/product/'' @ ''featured'')
   \<and> re_match (literal_regex ''/product/*'') ''/product/*''"
  by code_simp

section \<open>Properties of the classifier\<close>






text \<open>
  With compiled patterns the classifier raises only what the parsing of a link raises: a
  link that no matcher matches raises nothing.
\<close>

lemma classify_links_raises:
  "classify_links ok (Some ms) hh links acc = Inl e \<Longrightarrow> \<exists>u \<in> set links. link_location ok u = Inl e"
proof (induction links arbitrary: acc)
  case Nil
  then show ?case by simp
next
  case (Cons u links)
  show ?case
  proof (cases "link_location ok u")
    case (Inl e')
    with Cons.prems show ?thesis by simp
  next
    case (Inr hp)
    obtain h p where hp: "hp = (h, p)" by (cases hp)
    from Cons.prems Inr hp obtain acc' where "classify_links ok (Some ms) hh links acc' = Inl e"
      by (auto split: if_splits option.splits)
    from Cons.IH [OF this] show ?thesis by auto
  qed
qed









text \<open>
  C8. The classifier returns the planner it was given, so a second call with the same
  arguments meets the same state and returns the same output. The output depends on
  the planner through its compiled patterns only, and not on the year.
\<close>

theorem classification_deterministic:
  "snd (classify_candidate_urls ok self year links home) = self
   \<and> fst (classify_candidate_urls ok (snd (classify_candidate_urls ok self year links home))
            year links home)
       = fst (classify_candidate_urls ok self year links home)
   \<and> (compiled_patterns self' = compiled_patterns self
        \<longrightarrow> fst (classify_candidate_urls ok self' year' links home)
            = fst (classify_candidate_urls ok self year links home))"
  by (auto simp: classify_candidate_urls_def split: sum.splits)

theorem classification_deterministic_witness:
  "compiled_patterns
      ((compile_core_type_patterns product_planner)
         \<lparr>core_page_types := [(None, \<lparr>type_name = None, typical_url_patterns = None\<rparr>)]\<rparr>)
     = compiled_patterns (compile_core_type_patterns product_planner)
   \<and> fst (classify_candidate_urls any_bracketed_host
           ((compile_core_type_patterns product_planner)
              \<lparr>core_page_types := [(None, \<lparr>type_name = None, typical_url_patterns = None\<rparr>)]\<rparr>)
           ''2022'' demo_links [])
     = fst (classify_candidate_urls any_bracketed_host (compile_core_type_patterns product_planner)
              ''2021'' demo_links [])"
  using classification_deterministic
     [of any_bracketed_host "compile_core_type_patterns product_planner" "''2021''" demo_links "[]"
         "(compile_core_type_patterns product_planner)
            \<lparr>core_page_types := [(None, \<lparr>type_name = None, typical_url_patterns = None\<rparr>)]\<rparr>"
         "''2022''"]
  by simp


lemma map_of_dict_set_other: "k' \<noteq> k \<Longrightarrow> map_of (dict_set d k v) k' = map_of d k'"
  by (induction d) auto





section \<open>Archive URLs\<close>

lemma startswith_append: "startswith s p \<longleftrightarrow> (\<exists>r. s = p @ r)"
  by (induction s p rule: startswith.induct) auto

lemma startswith_takeWhile:
  "startswith s p \<Longrightarrow> \<forall>c \<in> set p. P c \<Longrightarrow> startswith (takeWhile P s) p"
  by (induction s p rule: startswith.induct) auto

lemma repair_scheme_well_formed: "has_http_scheme x \<Longrightarrow> repair_scheme x = x"
  by (auto simp: has_http_scheme_def repair_scheme_def Let_def startswith_append)

lemma has_http_scheme_takeWhile:
  "has_http_scheme u \<Longrightarrow> has_http_scheme (takeWhile (\<lambda>c. c \<noteq> CHR 0x0A) u)"
  unfolding has_http_scheme_def
  by (auto intro!: startswith_takeWhile)

lemma wayback_underlying_scheme: "wayback_underlying u = Some x \<Longrightarrow> has_http_scheme x"
  by (induction u) (auto split: option.splits if_splits intro: has_http_scheme_takeWhile)

lemma http_origin_scheme: "http_origin u = Some x \<Longrightarrow> has_http_scheme x"
  by (auto simp: http_origin_def Let_def has_http_scheme_def startswith_append split: if_splits)

lemma wayback_origin_scheme: "wayback_origin u = Some x \<Longrightarrow> has_http_scheme x"
  by (induction u) (auto split: option.splits if_splits dest: http_origin_scheme)

text \<open>
  The two regular expressions that find the embedded URL ask for \<open>http://\<close> or
  \<open>https://\<close>, so what they return never needs the repair of the scheme separator:
  the repair changes nothing, in the classifier and in the host extraction.
\<close>

lemma repair_never_fires:
  "(wayback_underlying u = Some x \<longrightarrow> repair_scheme x = x)
   \<and> (wayback_origin u = Some y \<longrightarrow> repair_scheme y = y)"
  by (auto dest!: wayback_underlying_scheme wayback_origin_scheme intro: repair_scheme_well_formed)

lemma single_slash_not_unwrapped:
  "link_location ok ''https://web.archive.org/web/20210615000000/http:/shop.example/sale?x=1''
     = Inr ([], ''https://web.archive.org/web/20210615000000/http:/shop.example/sale?x=1'')
   \<and> get_home_host ok ''https://web.archive.org/web/20210615000000/http:/shop.example/sale?x=1''
     = Inr ''web.archive.org''"
  by code_simp

text \<open>
  C3, as stated. The URL on \<open>archive.example\<close> does not hold the archive marker
  \<open>web.archive.org\<close>, so it is parsed as it stands: its host is \<open>archive.example\<close> and
  its path and query are all that follows the host.
\<close>

theorem archive_example_not_unwrapped:
  "link_location any_bracketed_host
      ''https://archive.example/web/20210615000000/http:/shop.example/sale?x=1''
     = Inr (''archive.example'', ''/web/20210615000000/http:/shop.example/sale?x=1'')
   \<and> link_location any_bracketed_host
        ''https://archive.example/web/20210615000000/http:/shop.example/sale?x=1''
     \<noteq> Inr (''shop.example'', ''/sale?x=1'')
   \<and> get_home_host any_bracketed_host
        ''https://archive.example/web/20210615000000/http:/shop.example/sale?x=1''
     = Inr ''archive.example''"
  by code_simp

text \<open>
  C3, amended. For the archive URL on \<open>web.archive.org\<close> whose embedded URL has a
  well-formed scheme separator, the classifier takes the embedded URL after the
  timestamp segment: host \<open>shop.example\<close>, path and query \<open>/sale?x=1\<close>. The host
  extraction gives the same host.
\<close>

theorem wayback_url_unwrapped:
  "link_location ok ''https://web.archive.org/web/20210615000000/http://shop.example/sale?x=1''
     = Inr (''shop.example'', ''/sale?x=1'')
   \<and> get_home_host ok ''https://web.archive.org/web/20210615000000/http://shop.example/sale?x=1''
     = Inr ''shop.example''"
  by code_simp

section \<open>Properties of the selection postprocessor\<close>

text \<open>
  C4, as stated. With no candidate, twenty valid URLs and membership enforced, the
  result holds the first ten valid URLs, and its keys are the eleven of \<open>result_keys\<close>:
  no key says that the fallback was used.
\<close>

theorem fallback_flag_absent:
  "optimize_crawl_strategy (JObj []) twenty_urls ''2021'' (Some True) ''2025-01-01 00:00:00''
     = Inr [(''analysis_time'', JStr ''2025-01-01 00:00:00''),
            (''using_real_llm'', JBool True),
            (''llm_model'', JStr ''openai/gpt-4o-mini''),
            (''year'', JStr ''2021''),
            (''discovered_links_count'', JInt 20),
            (''valid_content_urls_count'', JInt 20),
            (''recommended_crawl_pages'',
               JList [JStr ''u1'', JStr ''u2'', JStr ''u3'', JStr ''u4'', JStr ''u5'',
                      JStr ''u6'', JStr ''u7'', JStr ''u8'', JStr ''u9'', JStr ''u10'']),
            (''recommended_pages_count'', JInt 10),
            (''recommended_in_valid_overlap'', JInt 0),
            (''enforce_recommended_in_valid_list'', JBool True),
            (''core_url_details'', JObj [])]
   \<and> map fst (projr (optimize_crawl_strategy (JObj []) twenty_urls ''2021'' (Some True)
                        ''2025-01-01 00:00:00''))
     = result_keys
   \<and> map_of (projr (optimize_crawl_strategy (JObj []) twenty_urls ''2021'' (Some True)
                        ''2025-01-01 00:00:00''))
        ''fallback_used''
     = None"
  by code_simp

text \<open>
  C4, amended. When the deduplicated (and possibly membership-filtered) candidate list
  is computed without an exception, the postprocessor returns a result with the keys of
  \<open>result_keys\<close>. Its final list is the candidate list, or the first ten valid URLs in
  their order when the candidate list is empty; it carries the overlap count and whether
  membership was enforced.
\<close>

theorem selection_fallback_first_ten:
  assumes "candidate_urls llm valid (case enforce_in_valid of None \<Rightarrow> True | Some b \<Rightarrow> b) = Inr cands"
  shows "\<exists>r. optimize_crawl_strategy llm valid year enforce_in_valid now = Inr r
           \<and> map fst r = result_keys
           \<and> map_of r ''recommended_crawl_pages''
               = Some (JList (if cands = [] then map JStr (take 10 valid) else cands))
           \<and> map_of r ''recommended_in_valid_overlap''
               = Some (JInt (int (length (filter (\<lambda>u. in_valid u valid) cands))))
           \<and> map_of r ''enforce_recommended_in_valid_list''
               = Some (JBool (case enforce_in_valid of None \<Rightarrow> True | Some b \<Rightarrow> b))"
  using assms by (simp add: optimize_crawl_strategy_def Let_def result_keys_def)

theorem selection_fallback_first_ten_witness:
  "candidate_urls (JObj []) twenty_urls True = Inr []
   \<and> (\<exists>r. optimize_crawl_strategy (JObj []) twenty_urls ''2021'' (Some True) ''2025-01-01 00:00:00'' = Inr r
        \<and> map fst r = result_keys
        \<and> map_of r ''recommended_crawl_pages''
            = Some (JList [JStr ''u1'', JStr ''u2'', JStr ''u3'', JStr ''u4'', JStr ''u5'',
                           JStr ''u6'', JStr ''u7'', JStr ''u8'', JStr ''u9'', JStr ''u10'']))"
proof -
  have c: "candidate_urls (JObj []) twenty_urls (case Some True of None \<Rightarrow> True | Some b \<Rightarrow> b) = Inr []"
    by code_simp
  have t: "map JStr (take 10 twenty_urls)
           = [JStr ''u1'', JStr ''u2'', JStr ''u3'', JStr ''u4'', JStr ''u5'',
              JStr ''u6'', JStr ''u7'', JStr ''u8'', JStr ''u9'', JStr ''u10'']"
    by code_simp
  from selection_fallback_first_ten [OF c, of "''2021''" "''2025-01-01 00:00:00''"] c t
  show ?thesis by auto
qed

section \<open>Resuming\<close>













section \<open>A year that fails\<close>

lemma keys_dict_set:
  "map fst (dict_set d k v) = (if k \<in> set (map fst d) then map fst d else map fst d @ [k])"
  by (induction d) (auto simp: image_iff, force+)

lemma key_not_added:
  "year \<notin> set (map fst d) \<Longrightarrow> k \<noteq> year \<Longrightarrow> year \<notin> set (map fst (dict_set d k v))"
  by (simp only: keys_dict_set) (simp split: if_splits)

lemma plan_year_file: "plan_year E self n year links w = (r, w1) \<Longrightarrow> planning_file w1 = planning_file w"
  by (auto simp: plan_year_def Let_def split: sum.splits)

lemma plan_year_select_fails:
  "\<forall>cl k. \<exists>e. select_core_urls E year cl k = Inl e \<Longrightarrow>
   \<exists>e w1. plan_year E self n year links w = (Inl e, w1)"
proof -
  assume a: "\<forall>cl k. \<exists>e. select_core_urls E year cl k = Inl e"
  show ?thesis
  proof (cases "fst (classify_candidate_urls (bracketed_host_ok E) self year links [])")
    case (Inl e)
    then show ?thesis by (simp add: plan_year_def Let_def)
  next
    case (Inr cl)
    from a obtain e where "select_core_urls E year cl n = Inl e" by blast
    with Inr show ?thesis by (simp add: plan_year_def Let_def)
  qed
qed

lemma load_after_write:
  "year \<notin> set (map fst ya) \<Longrightarrow> year \<notin> set (map fst (load_llm_planning w)) \<Longrightarrow>
   year \<notin> set (map fst (load_llm_planning (write_planning_file E company ya w)))"
  by (auto simp: write_planning_file_def load_llm_planning_def Let_def split: io_outcome.splits stored.splits)

lemma plan_years_failed_year:
  assumes f: "\<forall>cl k. \<exists>e. select_core_urls E year cl k = Inl e"
  shows "year \<notin> set (map fst ya) \<Longrightarrow> year \<notin> set (map fst (load_llm_planning w)) \<Longrightarrow>
         plan_years E self company n ylm ya w = (ya', w') \<Longrightarrow>
         year \<notin> set (map fst ya') \<and> year \<notin> set (map fst (load_llm_planning w'))"
proof (induction ylm arbitrary: ya w)
  case Nil
  then show ?case by simp
next
  case (Cons yl ylm)
  obtain y links where yl: "yl = (y, links)" by (cases yl)
  show ?case
  proof (cases "y \<in> set (map fst ya)")
    case True
    with Cons.prems yl have "plan_years E self company n ylm ya w = (ya', w')" by simp
    from Cons.IH [OF Cons.prems(1,2) this] show ?thesis .
  next
    case False
    obtain r w1 where p: "plan_year E self n y links w = (r, w1)" by (cases "plan_year E self n y links w")
    from plan_year_file [OF p] Cons.prems(2)
    have l1: "year \<notin> set (map fst (load_llm_planning w1))" by (simp add: load_llm_planning_def)
    show ?thesis
    proof (cases r)
      case (Inl e)
      with Cons.prems yl False p have "plan_years E self company n ylm ya w1 = (ya', w')" by simp
      from Cons.IH [OF Cons.prems(1) l1 this] show ?thesis .
    next
      case (Inr final)
      have "y \<noteq> year"
      proof
        assume "y = year"
        with plan_year_select_fails [OF f, of self n links w] p Inr show False by auto
      qed
      with Cons.prems(1) have k: "year \<notin> set (map fst (dict_set ya y final))"
        by (intro key_not_added)
      from Inr Cons.prems yl False p
      have "plan_years E self company n ylm (dict_set ya y final)
              (write_planning_file E company (dict_set ya y final) w1) = (ya', w')"
        by (simp add: Let_def)
      from Cons.IH [OF k load_after_write [OF k l1] this] show ?thesis .
    qed
  qed
qed

text \<open>
  The planning stage does what the scenario stage misses: a year whose selection raises
  has no record in the planning document after the run, if it had none before.
\<close>

lemma planning_failure_leaves_no_trace:
  assumes "\<forall>cl k. \<exists>e. select_core_urls E year cl k = Inl e"
      and "year \<notin> set (map fst (load_llm_planning w))"
  shows "year \<notin> set (map fst (load_llm_planning (snd (generate_llm_planning E self ylm company n w))))"
proof (cases "core_page_types self = [] \<and> core_types_file w = Absent")
  case True
  then show ?thesis using assms(2) by (simp add: generate_llm_planning_def Let_def)
next
  case False
  let ?self2 = "compile_core_type_patterns
        (if core_page_types self = [] then load_core_page_types self (core_types_file w) else self)"
  obtain ya w1 where p: "plan_years E ?self2 company n ylm (load_llm_planning w) w = (ya, w1)"
    by (cases "plan_years E ?self2 company n ylm (load_llm_planning w) w")
  from False p have w': "snd (generate_llm_planning E self ylm company n w)
                         = write_planning_file E company ya w1"
    by (auto simp: generate_llm_planning_def load_llm_planning_def Let_def split: sum.splits)
  from plan_years_failed_year [OF assms(1) assms(2) assms(2) p]
  have "year \<notin> set (map fst ya)" "year \<notin> set (map fst (load_llm_planning w1))"
    by blast+
  then show ?thesis unfolding w' by (rule load_after_write)
qed

text \<open>
  C2. The scenario stage is run on a plan with the year 2015 and no scenario document,
  and the incremental save after the year's analysis fails. The \<open>except\<close> branch stores
  an error record for 2015, and the final save persists it. On the next run, with a disk
  that works, the year is found in the document and skipped: no tagging call is made,
  and the error record stays.
\<close>

theorem failed_year_is_skipped:
  "analyze_scenarios_for_company flaky_env planned_2015 ''shop.example'' empty_world
     = (None, empty_world
          \<lparr>scenarios_file := Content
              \<lparr>analysis_version = ''Scenario_Analyzer_v1.0'', sd_company_url = ''shop.example'',
               generation_time = ''2025-01-01 00:00:02'', analyzed_years_count = 1,
               total_identified_scenarios = 0, yearly_detailed_results = error_2015\<rparr>,
           tick := 3, calls := [Tag_call ''2015'']\<rparr>)
   \<and> analyze_scenarios_for_company demo_env planned_2015 ''shop.example''
       (snd (analyze_scenarios_for_company flaky_env planned_2015 ''shop.example'' empty_world))
     = (None, empty_world
          \<lparr>scenarios_file := Content
              \<lparr>analysis_version = ''Scenario_Analyzer_v1.0'', sd_company_url = ''shop.example'',
               generation_time = ''2025-01-01 00:00:03'', analyzed_years_count = 1,
               total_identified_scenarios = 0, yearly_detailed_results = error_2015\<rparr>,
           tick := 4, calls := [Tag_call ''2015'']\<rparr>)"
  by code_simp

section \<open>Properties of link discovery\<close>

lemma set_add_keeps: "set discovered \<subseteq> set (set_add discovered u)"
  by (auto simp: set_add_def)

lemma discover_loop_keeps:
  "discover_loop W hp hh ml hrefs acc = Inr r \<Longrightarrow> set acc \<subseteq> set r"
proof (induction hrefs arbitrary: acc)
  case Nil then show ?case by simp
next
  case (Cons href hrefs)
  show ?case
  proof (cases "href = []")
    case True
    with Cons show ?thesis by simp
  next
    case False
    from Cons.prems False obtain joined where j: "urljoin W hp href = Inr joined"
      by (cases "urljoin W hp href") auto
    from Cons.prems False j obtain ch where c: "get_home_host (host_ok W) (repair_joined joined) = Inr ch"
      by (cases "get_home_host (host_ok W) (repair_joined joined)") (auto simp: Let_def)
    let ?clean = "takeWhile (\<lambda>c. c \<noteq> CHR ''#'') (repair_joined joined)"
    show ?thesis
    proof (cases "(ch = [] \<or> ch = hh) \<and> should_include_url ?clean")
      case True
      show ?thesis
      proof (cases "int (length (set_add acc ?clean)) \<ge> ml")
        case True
        with \<open>(ch = [] \<or> ch = hh) \<and> should_include_url ?clean\<close> Cons.prems False j c
        have "r = set_add acc ?clean" by (auto simp: Let_def)
        then show ?thesis using set_add_keeps by simp
      next
        case F: False
        with True Cons.prems False j c
        have "discover_loop W hp hh ml hrefs (set_add acc ?clean) = Inr r" by (auto simp: Let_def)
        from Cons.IH [OF this] set_add_keeps [of acc ?clean] show ?thesis by blast
      qed
    next
      case F: False
      with Cons.prems False j c have "discover_loop W hp hh ml hrefs acc = Inr r"
        by (auto simp: Let_def split: if_splits)
      from Cons.IH [OF this] show ?thesis .
    qed
  qed
qed

text \<open>
  C10. Whatever the page, the library and the order in which Python enumerates the set
  of links: the list that link discovery returns holds the home page URL, so it is not
  empty; and when a step of the \<open>try\<close> body raises, the list is the home page URL alone.
  The function returns a list in every case: no exception leaves it.
\<close>

theorem discovery_returns_homepage:
  assumes "\<forall>xs. set (list_of_set W xs) = set xs"
  shows "homepage_url \<in> set (discover_internal_links W homepage_url max_links)
         \<and> discover_internal_links W homepage_url max_links \<noteq> []
         \<and> (\<forall>e. discover_body W homepage_url max_links = Inl e
               \<longrightarrow> discover_internal_links W homepage_url max_links = [homepage_url])"
proof -
  have m: "homepage_url \<in> set (discover_internal_links W homepage_url max_links)"
  proof (cases "discover_body W homepage_url max_links")
    case (Inl e)
    then show ?thesis by (simp add: discover_internal_links_def)
  next
    case (Inr result)
    then obtain hrefs hh ds where
      "discover_loop W homepage_url hh max_links hrefs [homepage_url] = Inr ds"
      and r: "result = list_of_set W ds"
      by (auto simp: discover_body_def split: sum.splits)
    from discover_loop_keeps [OF this(1)] have "homepage_url \<in> set ds" by simp
    with r assms have "homepage_url \<in> set result" by simp
    with Inr show ?thesis by (simp add: discover_internal_links_def)
  qed
  then have "discover_internal_links W homepage_url max_links \<noteq> []" by auto
  with m show ?thesis by (auto simp: discover_internal_links_def)
qed

theorem discovery_returns_homepage_witness:
  "(\<forall>xs. set (list_of_set demo_web xs) = set xs)
   \<and> discover_internal_links demo_web ''https://shop.example/'' 10000
       = [''https://shop.example/about'', ''https://shop.example/product/featured'',
          ''https://shop.example/'']
   \<and> ''https://shop.example/'' \<in> set (discover_internal_links demo_web ''https://shop.example/'' 10000)
   \<and> discover_body demo_web ''https://shop.example/2021'' 10000 = Inl (CollaboratorError ''HTTPError'')
   \<and> discover_internal_links demo_web ''https://shop.example/2021'' 10000 = [''https://shop.example/2021'']"
proof -
  have s: "\<forall>xs. set (list_of_set demo_web xs) = set xs"
    by (simp add: demo_web_def)
  have v: "discover_internal_links demo_web ''https://shop.example/'' 10000
       = [''https://shop.example/about'', ''https://shop.example/product/featured'',
          ''https://shop.example/'']"
    by code_simp
  have b: "discover_body demo_web ''https://shop.example/2021'' 10000 = Inl (CollaboratorError ''HTTPError'')"
    by code_simp
  from discovery_returns_homepage [OF s, of "''https://shop.example/''" 10000]
       discovery_returns_homepage [OF s, of "''https://shop.example/2021''" 10000] s v b
  show ?thesis by blast
qed

end
